theory Spec2Isabelle
  imports Complex_Main "HOL-Library.Sublist" "HOL-Library.Log_Nat"
begin

section \<open>VOKATRA checkout and payment reconciliation\<close>

text \<open>
  A shallow embedding of the two serverless functions of the repository:
  \<^verbatim>\<open>create_checkout_session.js\<close> (functions \<^verbatim>\<open>handleOrder\<close>, \<^verbatim>\<open>handleDonation\<close>) and
  \<^verbatim>\<open>stripe_webhook.js\<close> (the webhook handler, \<^verbatim>\<open>handlePaymentConfirmed\<close>,
  \<^verbatim>\<open>handlePaymentFailed\<close>, \<^verbatim>\<open>handleRefund\<close>).

  The datastore (Supabase) and the payment processor (Stripe) are external. The datastore
  is modelled as a record of tables; every call the code makes to it is appended to a
  trace, and an oracle \<open>faults\<close> says for each call whether the datastore answers with an
  error (then the call has no effect on the tables). The payment processor's
  \<^verbatim>\<open>sessions.create\<close> and \<^verbatim>\<open>webhooks.constructEvent\<close> are parameters that either
  throw (\<open>Inl\<close>) or return (\<open>Inr\<close>).

  JavaScript values: a string field that is absent is represented by the empty string
  (both are falsy, and the code only tests truthiness). The numeric columns of the
  \<^verbatim>\<open>products\<close> table are integers; what the code computes from them and from a cart
  line's \<^verbatim>\<open>qty\<close> are JavaScript numbers, with their rounding.
\<close>

subsection \<open>Text helpers\<close>

text \<open>Non-ASCII characters of the source's messages, as UTF-8 bytes.\<close>

definition e_acute :: string where
  "e_acute = [CHR 0xC3, CHR 0xA9]"

definition c_cedilla :: string where
  "c_cedilla = [CHR 0xC3, CHR 0xA7]"

definition apostrophe :: string where
  "apostrophe = [CHR 0x27]"

definition dquote :: string where
  "dquote = [CHR 0x22]"

definition en_dash :: string where
  "en_dash = [CHR 0xE2, CHR 0x80, CHR 0x93]"

definition euro_sign :: string where
  "euro_sign = [CHR 0xE2, CHR 0x82, CHR 0xAC]"

definition middle_dot :: string where
  "middle_dot = [CHR 0xC2, CHR 0xB7]"

definition folded_hands :: string where
  "folded_hands = [CHR 0xF0, CHR 0x9F, CHR 0x99, CHR 0x8F]"

text \<open>Decimal rendering of a number inside a template literal.\<close>

function show_nat :: "nat \<Rightarrow> string" where
  "show_nat n =
     (if n < 10 then [char_of (48 + n)]
      else show_nat (n div 10) @ [char_of (48 + n mod 10)])"
  by pat_completeness auto
termination
  by (relation "measure id") auto

text \<open>The equation of \<open>show_nat\<close> is recursive without a guard: it is unfolded on demand only.\<close>

declare show_nat.simps [simp del]

definition show_int :: "int \<Rightarrow> string" where
  "show_int i = (if i < 0 then ''-'' @ show_nat (nat (- i)) else show_nat (nat i))"

subsection \<open>JavaScript numbers and values\<close>

text \<open>
  A JavaScript number is an IEEE-754 binary64 value: a finite value (a rational), NaN or
  an infinity; the two zeros are not told apart. The result of an arithmetic operation
  is the exact result rounded to the nearest representable value, ties to even:
  \<open>binade\<close> is the exponent of the leading bit, a finite value has 53 significant bits
  and an exponent of its last bit no smaller than \<open>-1074\<close>, and a magnitude that rounds to
  \<open>2 ^ 1024\<close> or more is an infinity.
\<close>

datatype number = Num rat | NaN | PosInfinity | NegInfinity

definition round_half_even :: "rat \<Rightarrow> int" where
  "round_half_even x =
     (let f = \<lfloor>x\<rfloor>; r = x - of_int f in
      if r < 1 / 2 then f
      else if 1 / 2 < r then f + 1
      else if even f then f else f + 1)"

definition binade :: "rat \<Rightarrow> int" where
  "binade a = (if 1 \<le> a then bitlen \<lfloor>a\<rfloor> - 1 else - bitlen (\<lceil>1 / a\<rceil> - 1))"

definition scale2 :: "rat \<Rightarrow> int \<Rightarrow> rat" where
  "scale2 x q = (if 0 \<le> q then x * 2 ^ nat q else x / 2 ^ nat (- q))"

definition round_magnitude :: "rat \<Rightarrow> rat" where
  "round_magnitude a =
     (let q = max (binade a - 52) (- 1074)
      in scale2 (of_int (round_half_even (scale2 a (- q)))) q)"

definition round64 :: "rat \<Rightarrow> number" where
  "round64 x =
     (if x = 0 then Num 0
      else let m = round_magnitude \<bar>x\<bar> in
        if 2 ^ 1024 \<le> m then (if 0 < x then PosInfinity else NegInfinity)
        else Num (if 0 < x then m else - m))"

text \<open>An integer of the datastore as the number JavaScript reads.\<close>

definition from_int :: "int \<Rightarrow> number" where
  "from_int i = round64 (of_int i)"

text \<open>The operators \<^verbatim>\<open>*\<close>, \<^verbatim>\<open>+\<close>, \<^verbatim>\<open><\<close> and \<^verbatim>\<open><=\<close> on numbers.\<close>

fun js_times :: "number \<Rightarrow> number \<Rightarrow> number" where
  "js_times (Num x) (Num y) = round64 (x * y)"
| "js_times NaN b = NaN"
| "js_times a NaN = NaN"
| "js_times (Num x) PosInfinity =
     (if x = 0 then NaN else if 0 < x then PosInfinity else NegInfinity)"
| "js_times (Num x) NegInfinity =
     (if x = 0 then NaN else if 0 < x then NegInfinity else PosInfinity)"
| "js_times PosInfinity (Num y) =
     (if y = 0 then NaN else if 0 < y then PosInfinity else NegInfinity)"
| "js_times NegInfinity (Num y) =
     (if y = 0 then NaN else if 0 < y then NegInfinity else PosInfinity)"
| "js_times PosInfinity PosInfinity = PosInfinity"
| "js_times PosInfinity NegInfinity = NegInfinity"
| "js_times NegInfinity PosInfinity = NegInfinity"
| "js_times NegInfinity NegInfinity = PosInfinity"

fun js_plus :: "number \<Rightarrow> number \<Rightarrow> number" where
  "js_plus (Num x) (Num y) = round64 (x + y)"
| "js_plus NaN b = NaN"
| "js_plus a NaN = NaN"
| "js_plus PosInfinity NegInfinity = NaN"
| "js_plus NegInfinity PosInfinity = NaN"
| "js_plus PosInfinity b = PosInfinity"
| "js_plus NegInfinity b = NegInfinity"
| "js_plus a PosInfinity = PosInfinity"
| "js_plus a NegInfinity = NegInfinity"

fun js_less :: "number \<Rightarrow> number \<Rightarrow> bool" where
  "js_less (Num x) (Num y) = (x < y)"
| "js_less NaN b = False"
| "js_less a NaN = False"
| "js_less a NegInfinity = False"
| "js_less PosInfinity b = False"
| "js_less NegInfinity b = True"
| "js_less a PosInfinity = True"

fun js_le :: "number \<Rightarrow> number \<Rightarrow> bool" where
  "js_le (Num x) (Num y) = (x \<le> y)"
| "js_le NaN b = False"
| "js_le a NaN = False"
| "js_le NegInfinity b = True"
| "js_le a PosInfinity = True"
| "js_le a NegInfinity = False"
| "js_le PosInfinity b = False"

text \<open>
  A cart line's \<^verbatim>\<open>qty\<close> and a donation's \<^verbatim>\<open>amountCents\<close> come from the request's JSON
  unchecked: they can be any JSON value, or be missing. The code does four things with
  such a value: it converts it to a number (in a comparison, in the multiplication), to a
  string (in a message), to a boolean (in the test \<^verbatim>\<open>!donation.amountCents\<close>), and it passes
  it on as it is (to the datastore and to Stripe). A value is represented by what the
  three conversions give: a missing field is NaN, \<^verbatim>\<open>undefined\<close> and false, the string \<^verbatim>\<open>"2"\<close>
  is 2, \<^verbatim>\<open>2\<close> and true, the number one half is 1/2, \<^verbatim>\<open>0.5\<close> and true.
\<close>

record js_value =
  to_number :: number
  to_string :: string
  to_boolean :: bool

text \<open>
  A number that is an integer, as a template literal prints it: in decimal digits (the
  form used for magnitudes below \<open>10 ^ 21\<close>).
\<close>

definition show_number :: "number \<Rightarrow> string" where
  "show_number n =
     (case n of
        Num x \<Rightarrow> show_int \<lfloor>x\<rfloor>
      | NaN \<Rightarrow> ''NaN''
      | PosInfinity \<Rightarrow> ''Infinity''
      | NegInfinity \<Rightarrow> ''-Infinity'')"

text \<open>An integer sent or received as a JSON number.\<close>

definition whole :: "int \<Rightarrow> js_value" where
  "whole n =
     \<lparr>to_number = from_int n, to_string = show_number (from_int n), to_boolean = (n \<noteq> 0)\<rparr>"

subsection \<open>Data model\<close>

type_synonym ident = nat

datatype order_status = New | Confirmed | Cancelled

datatype payment_status = Pending | Paid | Failed | Refunded

record product =
  p_id :: ident
  p_name :: string
  unit_price_cents :: int
  stock_qty :: int
  p_active :: bool
  emoji :: string

record delivery_date_row =
  dd_id :: ident
  delivery_date :: string
  label :: string
  dd_active :: bool

text \<open>
  The columns \<^verbatim>\<open>handleOrder\<close> writes when it inserts into \<^verbatim>\<open>orders\<close>; the datastore
  adds the generated id and the columns that are filled in later.
\<close>

record order_insert =
  status :: order_status
  payment_status :: payment_status
  payment_method :: string
  customer_first_name :: string
  customer_last_name :: string
  customer_address :: string
  customer_phone :: "string option"
  customer_email :: "string option"
  church_name :: string
  section_name :: string
  delivery_address :: string
  delivery_date_id :: ident
  currency :: string
  total_amount_cents :: number

record order_row = order_insert +
  o_id :: ident
  stripe_checkout_session_id :: "string option"
  stripe_payment_intent_id :: "string option"
  updated_at :: "string option"

text \<open>An element of \<^verbatim>\<open>orderItems\<close>, and the same with \<^verbatim>\<open>order_id\<close> added.\<close>

record order_item =
  product_id :: ident
  product_name_snapshot :: string
  product_emoji_snapshot :: string
  unit_price_cents_snapshot :: number
  oi_qty :: js_value
  line_total_cents :: number

record order_item_row = order_item +
  order_id :: ident

record donation_insert =
  donor_first_name :: string
  donor_last_name :: string
  donor_email :: "string option"
  donor_phone :: "string option"
  don_church_name :: "string option"
  don_section_name :: "string option"
  message :: "string option"
  amount_cents :: js_value
  don_currency :: string
  don_payment_status :: payment_status

record donation_row = donation_insert +
  don_id :: ident
  don_stripe_checkout_session_id :: "string option"
  don_stripe_payment_intent_id :: "string option"

record tables =
  delivery_dates :: "delivery_date_row list"
  products :: "product list"
  orders :: "order_row list"
  order_items :: "order_item_row list"
  donations :: "donation_row list"

subsection \<open>Request shapes\<close>

text \<open>
  A cart line as the client sends it. Only \<^verbatim>\<open>productId\<close> and \<^verbatim>\<open>qty\<close> are read by the
  code; whatever else the client puts on the line (a price, a name) is the extension
  part of the record scheme, which every function below leaves polymorphic. The
  quantity is whatever value the client sent.
\<close>

record cart_item =
  productId :: ident
  qty :: js_value

record customer =
  firstName :: string
  lastName :: string
  address :: string
  churchName :: string
  sectionName :: string
  phone :: string
  email :: string

record delivery =
  d_address :: string
  dateId :: "ident option"

record donation =
  dn_firstName :: string
  dn_lastName :: string
  dn_email :: string
  dn_phone :: string
  dn_church :: string
  dn_section :: string
  dn_message :: string
  amountCents :: js_value

subsection \<open>Payment processor\<close>

record stripe_line_item =
  li_currency :: string
  unit_amount :: js_value
  li_name :: string
  li_description :: string
  quantity :: js_value

text \<open>
  The argument of \<^verbatim>\<open>stripe.checkout.sessions.create\<close>. The constant fields
  (\<^verbatim>\<open>payment_method_types\<close>, \<^verbatim>\<open>mode\<close>, the two redirect URLs) and \<^verbatim>\<open>expires_at\<close> are left out.
\<close>

record session_request =
  line_items :: "stripe_line_item list"
  metadata_id :: ident
  metadata_type :: string
  sr_customer_email :: "string option"

record stripe_session =
  session_id :: string
  url :: string

type_synonym create_session = "session_request \<Rightarrow> string + stripe_session"

subsection \<open>Datastore calls, trace and console\<close>

datatype call =
    SelectDeliveryDate ident
  | SelectProducts "ident list"
  | InsertOrder order_insert
  | InsertOrderItems "order_item_row list"
  | DeleteOrder ident
  | UpdateOrderPaymentStatus ident payment_status
  | UpdateOrderSession ident string
  | InsertDonation donation_insert
  | DeleteDonation ident
  | UpdateDonationSession ident string
  | RpcConfirmOrderPayment string "string option"
  | RpcConfirmDonationPayment string "string option"
  | RpcMarkPaymentFailed string
  | UpdateOrdersRefunded string string

type_synonym faults = "call \<Rightarrow> string option"

datatype console_entry =
    ConsoleLog string
  | ConsoleWarn string
  | ConsoleError string string

record world =
  db :: tables
  trace :: "call list"
  console :: "console_entry list"

definition issue :: "call \<Rightarrow> world \<Rightarrow> world" where
  "issue c w = w\<lparr>trace := trace w @ [c]\<rparr>"

definition say :: "console_entry \<Rightarrow> world \<Rightarrow> world" where
  "say e w = w\<lparr>console := console w @ [e]\<rparr>"

definition fresh_id :: "ident list \<Rightarrow> ident" where
  "fresh_id ids = Suc (fold max ids 0)"

text \<open>\<^verbatim>\<open>.from('delivery_dates').select(...).eq('id', i).single()\<close>: an error unless exactly one row matches.\<close>

definition select_delivery_date ::
  "faults \<Rightarrow> ident \<Rightarrow> world \<Rightarrow> (string + delivery_date_row) \<times> world" where
  "select_delivery_date faults i w =
     (let c = SelectDeliveryDate i; w' = issue c w in
      case faults c of
        Some err \<Rightarrow> (Inl err, w')
      | None \<Rightarrow>
          (case filter (\<lambda>d. dd_id d = i) (delivery_dates (db w')) of
             [d] \<Rightarrow> (Inr d, w')
           | _ \<Rightarrow> (Inl ''JSON object requested, multiple (or no) rows returned'', w')))"

text \<open>\<^verbatim>\<open>.from('products').select(...).in('id', productIds)\<close>.\<close>

definition select_products ::
  "faults \<Rightarrow> ident list \<Rightarrow> world \<Rightarrow> (string + product list) \<times> world" where
  "select_products faults productIds w =
     (let c = SelectProducts productIds; w' = issue c w in
      case faults c of
        Some err \<Rightarrow> (Inl err, w')
      | None \<Rightarrow> (Inr (filter (\<lambda>p. p_id p \<in> set productIds) (products (db w'))), w'))"

text \<open>\<^verbatim>\<open>.from('orders').insert({...}).select('id').single()\<close>: the new row's id is returned.\<close>

definition insert_order :: "faults \<Rightarrow> order_insert \<Rightarrow> world \<Rightarrow> (string + ident) \<times> world" where
  "insert_order faults row w =
     (let c = InsertOrder row; w' = issue c w in
      case faults c of
        Some err \<Rightarrow> (Inl err, w')
      | None \<Rightarrow>
          (let i = fresh_id (map o_id (orders (db w')));
               r = order_insert.extend row
                     \<lparr>o_id = i, stripe_checkout_session_id = None,
                      stripe_payment_intent_id = None, updated_at = None\<rparr>
           in (Inr i, w'\<lparr>db := (db w')\<lparr>orders := orders (db w') @ [r]\<rparr>\<rparr>)))"

definition insert_order_items ::
  "faults \<Rightarrow> order_item_row list \<Rightarrow> world \<Rightarrow> string option \<times> world" where
  "insert_order_items faults rows w =
     (let c = InsertOrderItems rows; w' = issue c w in
      case faults c of
        Some err \<Rightarrow> (Some err, w')
      | None \<Rightarrow> (None, w'\<lparr>db := (db w')\<lparr>order_items := order_items (db w') @ rows\<rparr>\<rparr>))"

text \<open>\<^verbatim>\<open>.from('orders').delete().eq('id', i)\<close>.\<close>

definition delete_order :: "faults \<Rightarrow> ident \<Rightarrow> world \<Rightarrow> string option \<times> world" where
  "delete_order faults i w =
     (let c = DeleteOrder i; w' = issue c w in
      case faults c of
        Some err \<Rightarrow> (Some err, w')
      | None \<Rightarrow>
          (None, w'\<lparr>db := (db w')\<lparr>orders := filter (\<lambda>r. o_id r \<noteq> i) (orders (db w'))\<rparr>\<rparr>))"

text \<open>\<^verbatim>\<open>.from('orders').update({ payment_status: s }).eq('id', i)\<close>.\<close>

definition update_order_payment_status ::
  "faults \<Rightarrow> ident \<Rightarrow> payment_status \<Rightarrow> world \<Rightarrow> string option \<times> world" where
  "update_order_payment_status faults i s w =
     (let c = UpdateOrderPaymentStatus i s; w' = issue c w in
      case faults c of
        Some err \<Rightarrow> (Some err, w')
      | None \<Rightarrow>
          (None, w'\<lparr>db := (db w')\<lparr>orders :=
             map (\<lambda>r. if o_id r = i then r\<lparr>payment_status := s\<rparr> else r) (orders (db w'))\<rparr>\<rparr>))"

text \<open>\<^verbatim>\<open>.from('orders').update({ stripe_checkout_session_id: sid }).eq('id', i)\<close>.\<close>

definition update_order_session ::
  "faults \<Rightarrow> ident \<Rightarrow> string \<Rightarrow> world \<Rightarrow> string option \<times> world" where
  "update_order_session faults i sid w =
     (let c = UpdateOrderSession i sid; w' = issue c w in
      case faults c of
        Some err \<Rightarrow> (Some err, w')
      | None \<Rightarrow>
          (None, w'\<lparr>db := (db w')\<lparr>orders :=
             map (\<lambda>r. if o_id r = i then r\<lparr>stripe_checkout_session_id := Some sid\<rparr> else r)
               (orders (db w'))\<rparr>\<rparr>))"

definition insert_donation ::
  "faults \<Rightarrow> donation_insert \<Rightarrow> world \<Rightarrow> (string + ident) \<times> world" where
  "insert_donation faults row w =
     (let c = InsertDonation row; w' = issue c w in
      case faults c of
        Some err \<Rightarrow> (Inl err, w')
      | None \<Rightarrow>
          (let i = fresh_id (map don_id (donations (db w')));
               r = donation_insert.extend row
                     \<lparr>don_id = i, don_stripe_checkout_session_id = None,
                      don_stripe_payment_intent_id = None\<rparr>
           in (Inr i, w'\<lparr>db := (db w')\<lparr>donations := donations (db w') @ [r]\<rparr>\<rparr>)))"

definition delete_donation :: "faults \<Rightarrow> ident \<Rightarrow> world \<Rightarrow> string option \<times> world" where
  "delete_donation faults i w =
     (let c = DeleteDonation i; w' = issue c w in
      case faults c of
        Some err \<Rightarrow> (Some err, w')
      | None \<Rightarrow>
          (None, w'\<lparr>db := (db w')\<lparr>donations :=
             filter (\<lambda>r. don_id r \<noteq> i) (donations (db w'))\<rparr>\<rparr>))"

definition update_donation_session ::
  "faults \<Rightarrow> ident \<Rightarrow> string \<Rightarrow> world \<Rightarrow> string option \<times> world" where
  "update_donation_session faults i sid w =
     (let c = UpdateDonationSession i sid; w' = issue c w in
      case faults c of
        Some err \<Rightarrow> (Some err, w')
      | None \<Rightarrow>
          (None, w'\<lparr>db := (db w')\<lparr>donations :=
             map (\<lambda>r. if don_id r = i then r\<lparr>don_stripe_checkout_session_id := Some sid\<rparr> else r)
               (donations (db w'))\<rparr>\<rparr>))"

subsection \<open>Checkout responses\<close>

text \<open>The body is the object given to \<^verbatim>\<open>JSON.stringify\<close>.\<close>

datatype body =
    ErrorBody string
  | OrderCreated string ident
  | DonationCreated string ident

record response =
  statusCode :: nat
  headers :: "(string \<times> string) list"
  body :: body

definition response :: "nat \<Rightarrow> body \<Rightarrow> response" where
  "response code b =
     \<lparr>statusCode = code,
      headers = [(''Content-Type'', ''application/json''),
                 (''Access-Control-Allow-Origin'', ''*'')],
      body = b\<rparr>"

subsection \<open>\<^verbatim>\<open>handleOrder\<close>\<close>

text \<open>
  The field checks of lines 73--80, in the source's order. \<^verbatim>\<open>customer?.f\<close> and
  \<^verbatim>\<open>delivery?.f\<close> are undefined when the object is absent (\<open>None\<close>); a date id that is
  absent or the number 0 is falsy. The loop over \<^verbatim>\<open>required\<close> before them (lines 65--72)
  has an empty body and no effect. The result carries the three values the rest of the
  function reads, or the message of the 400 response.
\<close>

definition validate_order_fields ::
  "'a cart_item_scheme list \<Rightarrow> customer option \<Rightarrow> delivery option
     \<Rightarrow> string + (customer \<times> delivery \<times> ident)" where
  "validate_order_fields cart customer delivery =
     (case customer of
        None \<Rightarrow> Inl (''Pr'' @ e_acute @ ''nom obligatoire'')
      | Some c \<Rightarrow>
          if firstName c = [] then Inl (''Pr'' @ e_acute @ ''nom obligatoire'')
          else if lastName c = [] then Inl ''Nom obligatoire''
          else if address c = [] then Inl ''Adresse obligatoire''
          else if churchName c = []
            then Inl (''Nom d'' @ apostrophe @ e_acute @ ''glise obligatoire'')
          else if sectionName c = [] then Inl ''Section obligatoire''
          else
            (case delivery of
               None \<Rightarrow> Inl ''Adresse de livraison obligatoire''
             | Some d \<Rightarrow>
                 if d_address d = [] then Inl ''Adresse de livraison obligatoire''
                 else
                   (case dateId d of
                      None \<Rightarrow> Inl ''Date de livraison obligatoire''
                    | Some i \<Rightarrow>
                        if i = 0 then Inl ''Date de livraison obligatoire''
                        else if cart = [] then Inl ''Panier vide''
                        else Inr (c, d, i))))"

text \<open>
  The loop of lines 113--154 over the cart, with its three accumulators
  \<^verbatim>\<open>orderItems\<close>, \<^verbatim>\<open>stripeLineItems\<close> and \<^verbatim>\<open>totalCents\<close>. A \<^verbatim>\<open>return response(400, ...)\<close>
  inside the loop is \<open>Inl\<close> of its message. The two tests on \<^verbatim>\<open>cartItem.qty\<close> compare
  numbers, the line total and the running total are a product and a sum of numbers.
\<close>

fun build_lines ::
  "product list \<Rightarrow> 'a cart_item_scheme list \<Rightarrow> order_item list \<Rightarrow> stripe_line_item list
     \<Rightarrow> number \<Rightarrow> string + (order_item list \<times> stripe_line_item list \<times> number)" where
  "build_lines prods [] orderItems stripeLineItems totalCents =
     Inr (orderItems, stripeLineItems, totalCents)"
| "build_lines prods (cartItem # rest) orderItems stripeLineItems totalCents =
     (case find (\<lambda>p. p_id p = productId cartItem) prods of
        None \<Rightarrow> Inl (''Produit introuvable : '' @ show_nat (productId cartItem))
      | Some product \<Rightarrow>
          if \<not> p_active product then Inl (''Produit non disponible : '' @ p_name product)
          else if js_less (from_int (stock_qty product)) (to_number (qty cartItem)) then
            Inl (''Stock insuffisant pour '' @ dquote @ p_name product @ dquote
                 @ ''. Disponible : '' @ show_number (from_int (stock_qty product))
                 @ '', demand'' @ e_acute @ '' : '' @ to_string (qty cartItem))
          else if js_le (to_number (qty cartItem)) (Num 0) then
            Inl (''Quantit'' @ e_acute @ '' invalide pour : '' @ p_name product)
          else
            (let lineTotalCents =
                   js_times (from_int (unit_price_cents product)) (to_number (qty cartItem)) in
             build_lines prods rest
               (orderItems @
                  [\<lparr>product_id = p_id product,
                    product_name_snapshot = p_name product,
                    product_emoji_snapshot = emoji product,
                    unit_price_cents_snapshot = from_int (unit_price_cents product),
                    oi_qty = qty cartItem,
                    line_total_cents = lineTotalCents\<rparr>])
               (stripeLineItems @
                  [\<lparr>li_currency = ''eur'',
                    unit_amount = whole (unit_price_cents product),
                    li_name = p_name product,
                    li_description =
                      emoji product @ '' Projet VOKATRA '' @ en_dash @ '' FLM Bordeaux'',
                    quantity = qty cartItem\<rparr>])
               (js_plus totalCents lineTotalCents)))"

definition or_null :: "string \<Rightarrow> string option" where
  "or_null s = (if s = [] then None else Some s)"

text \<open>Lines 204--246: the payment session, and what follows its success or failure.\<close>

definition pay_order ::
  "faults \<Rightarrow> create_session \<Rightarrow> customer \<Rightarrow> ident \<Rightarrow> stripe_line_item list \<Rightarrow> world
     \<Rightarrow> response \<times> world" where
  "pay_order faults createSession c orderId stripeLineItems w =
     (case createSession
             \<lparr>line_items = stripeLineItems, metadata_id = orderId,
              metadata_type = ''order'', sr_customer_email = or_null (email c)\<rparr> of
        Inl stripeError \<Rightarrow>
          (let w1 = say (ConsoleError ''Erreur Stripe:'' stripeError) w;
               w2 = snd (update_order_payment_status faults orderId Failed w1)
           in (response 500
                 (ErrorBody (''Erreur lors de la cr'' @ e_acute @ ''ation du paiement Stripe'')),
               w2))
      | Inr session \<Rightarrow>
          (let w1 = snd (update_order_session faults orderId (session_id session) w)
           in (response 200 (OrderCreated (url session) orderId), w1)))"

text \<open>The header row \<^verbatim>\<open>handleOrder\<close> inserts for a customer, a delivery and a total.\<close>

definition order_header :: "customer \<Rightarrow> delivery \<Rightarrow> ident \<Rightarrow> number \<Rightarrow> order_insert" where
  "order_header c d i totalCents =
     \<lparr>status = New, payment_status = Pending, payment_method = ''stripe'',
      customer_first_name = firstName c, customer_last_name = lastName c,
      customer_address = address c,
      customer_phone = or_null (phone c), customer_email = or_null (email c),
      church_name = churchName c, section_name = sectionName c,
      delivery_address = d_address d, delivery_date_id = i,
      currency = ''EUR'', total_amount_cents = totalCents\<rparr>"

text \<open>Lines 156--202: the order header, then its items, with the compensating delete.\<close>

definition persist_order ::
  "faults \<Rightarrow> create_session \<Rightarrow> customer \<Rightarrow> delivery \<Rightarrow> ident
     \<Rightarrow> order_item list \<Rightarrow> stripe_line_item list \<Rightarrow> number \<Rightarrow> world
     \<Rightarrow> response \<times> world" where
  "persist_order faults createSession c d dateId' orderItems stripeLineItems totalCents w =
     (case insert_order faults (order_header c d dateId' totalCents) w of
        (Inl orderError, w1) \<Rightarrow>
          (response 500
             (ErrorBody (''Erreur lors de la cr'' @ e_acute @ ''ation de la commande'')),
           say (ConsoleError (''Erreur cr'' @ e_acute @ ''ation commande:'') orderError) w1)
      | (Inr orderId, w1) \<Rightarrow>
          (let itemsWithOrderId =
                 map (\<lambda>item. order_item.extend item \<lparr>order_id = orderId\<rparr>) orderItems
           in case insert_order_items faults itemsWithOrderId w1 of
                (Some itemsError, w2) \<Rightarrow>
                  (let w3 = say (ConsoleError (''Erreur cr'' @ e_acute @ ''ation order_items:'')
                                   itemsError) w2;
                       w4 = snd (delete_order faults orderId w3)
                   in (response 500
                         (ErrorBody (''Erreur lors de l'' @ apostrophe
                                     @ ''enregistrement des articles'')),
                       w4))
              | (None, w2) \<Rightarrow> pay_order faults createSession c orderId stripeLineItems w2))"

definition handleOrder ::
  "faults \<Rightarrow> create_session \<Rightarrow> 'a cart_item_scheme list \<Rightarrow> customer option \<Rightarrow> delivery option
     \<Rightarrow> world \<Rightarrow> response \<times> world" where
  "handleOrder faults createSession cart customer delivery w =
     (case validate_order_fields cart customer delivery of
        Inl msg \<Rightarrow> (response 400 (ErrorBody msg), w)
      | Inr (c, d, dateId') \<Rightarrow>
          (case select_delivery_date faults dateId' w of
             (Inl dateError, w1) \<Rightarrow>
               (response 400 (ErrorBody ''Date de livraison introuvable''), w1)
           | (Inr deliveryDate, w1) \<Rightarrow>
               if \<not> dd_active deliveryDate then
                 (response 400
                    (ErrorBody (''Cette date de livraison n'' @ apostrophe
                                @ ''est plus disponible'')), w1)
               else
                 (case select_products faults (map productId cart) w1 of
                    (Inl productsError, w2) \<Rightarrow>
                      (response 500
                         (ErrorBody (''Erreur lors de la r'' @ e_acute @ ''cup'' @ e_acute
                                     @ ''ration des produits'')), w2)
                  | (Inr prods, w2) \<Rightarrow>
                      (case build_lines prods cart [] [] (Num 0) of
                         Inl msg \<Rightarrow> (response 400 (ErrorBody msg), w2)
                       | Inr (orderItems, stripeLineItems, totalCents) \<Rightarrow>
                           persist_order faults createSession c d dateId'
                             orderItems stripeLineItems totalCents w2))))"

subsection \<open>\<^verbatim>\<open>handleDonation\<close>\<close>

text \<open>The row \<^verbatim>\<open>handleDonation\<close> inserts into \<^verbatim>\<open>donations\<close>.\<close>

definition donation_header :: "donation \<Rightarrow> donation_insert" where
  "donation_header donation =
     \<lparr>donor_first_name = dn_firstName donation,
      donor_last_name = dn_lastName donation,
      donor_email = or_null (dn_email donation),
      donor_phone = or_null (dn_phone donation),
      don_church_name = or_null (dn_church donation),
      don_section_name = or_null (dn_section donation),
      message = or_null (dn_message donation),
      amount_cents = amountCents donation,
      don_currency = ''EUR'',
      don_payment_status = Pending\<rparr>"

definition handleDonation ::
  "faults \<Rightarrow> create_session \<Rightarrow> donation \<Rightarrow> world \<Rightarrow> response \<times> world" where
  "handleDonation faults createSession donation w =
     (if dn_firstName donation = [] then
        (response 400 (ErrorBody (''Pr'' @ e_acute @ ''nom obligatoire'')), w)
      else if dn_lastName donation = [] then (response 400 (ErrorBody ''Nom obligatoire''), w)
      else if \<not> to_boolean (amountCents donation)
              \<or> js_less (to_number (amountCents donation)) (Num 100) then
        (response 400 (ErrorBody (''Montant minimum : 1 '' @ euro_sign)), w)
      else
        (case insert_donation faults (donation_header donation) w of
           (Inl donError, w1) \<Rightarrow>
             (response 500 (ErrorBody (''Erreur lors de la cr'' @ e_acute @ ''ation du don'')),
              say (ConsoleError (''Erreur cr'' @ e_acute @ ''ation don:'') donError) w1)
         | (Inr donId, w1) \<Rightarrow>
             (case createSession
                     \<lparr>line_items =
                        [\<lparr>li_currency = ''eur'',
                          unit_amount = amountCents donation,
                          li_name = ''Don '' @ en_dash @ '' Projet VOKATRA'',
                          li_description =
                            ''FLM Bordeaux '' @ middle_dot @ '' Merci pour votre soutien ''
                            @ folded_hands,
                          quantity = whole 1\<rparr>],
                      metadata_id = donId, metadata_type = ''donation'',
                      sr_customer_email = or_null (dn_email donation)\<rparr> of
                Inl stripeError \<Rightarrow>
                  (let w2 = say (ConsoleError ''Erreur Stripe don:'' stripeError) w1;
                       w3 = snd (delete_donation faults donId w2)
                   in (response 500 (ErrorBody ''Erreur Stripe''), w3))
              | Inr session \<Rightarrow>
                  (let w2 = snd (update_donation_session faults donId (session_id session) w1)
                   in (response 200 (DonationCreated (url session) donId), w2)))))"

subsection \<open>Webhook: events and stored procedures\<close>

definition cross_mark :: string where
  "cross_mark = [CHR 0xE2, CHR 0x9D, CHR 0x8C]"

definition check_mark :: string where
  "check_mark = [CHR 0xE2, CHR 0x9C, CHR 0x85]"

definition credit_card :: string where
  "credit_card = [CHR 0xF0, CHR 0x9F, CHR 0x92, CHR 0xB3]"

definition warning_sign :: string where
  "warning_sign = [CHR 0xE2, CHR 0x9A, CHR 0xA0, CHR 0xEF, CHR 0xB8, CHR 0x8F]"

definition E_acute :: string where
  "E_acute = [CHR 0xC3, CHR 0x89]"

text \<open>
  The objects the handler reads from \<^verbatim>\<open>stripeEvent.data.object\<close>: a checkout session
  (\<^verbatim>\<open>id\<close>, \<^verbatim>\<open>payment_intent\<close>, \<^verbatim>\<open>metadata?.type\<close>), a payment intent
  (\<^verbatim>\<open>metadata?.session_id\<close>) and a charge (\<^verbatim>\<open>payment_intent\<close>). An event is tagged by its
  \<^verbatim>\<open>type\<close>, the string the \<^verbatim>\<open>switch\<close> dispatches on.
\<close>

record checkout_session =
  cs_id :: string
  cs_payment_intent :: "string option"
  cs_metadata_type :: "string option"

record payment_intent =
  pi_metadata_session_id :: "string option"

record charge =
  ch_payment_intent :: "string option"

datatype stripe_event =
    CheckoutSessionCompleted checkout_session
  | CheckoutSessionExpired checkout_session
  | PaymentIntentPaymentFailed payment_intent
  | ChargeRefunded charge
  | OtherEvent string

fun event_type :: "stripe_event \<Rightarrow> string" where
  "event_type (CheckoutSessionCompleted _) = ''checkout.session.completed''"
| "event_type (CheckoutSessionExpired _) = ''checkout.session.expired''"
| "event_type (PaymentIntentPaymentFailed _) = ''payment_intent.payment_failed''"
| "event_type (ChargeRefunded _) = ''charge.refunded''"
| "event_type (OtherEvent t) = t"

text \<open>The \<^verbatim>\<open>data\<close> of an RPC answer: \<^verbatim>\<open>{success, order_id}\<close> or \<^verbatim>\<open>{success, donation_id}\<close>.\<close>

record rpc_data =
  success :: bool
  entity_id :: "ident option"

type_synonym procedure = "tables \<Rightarrow> rpc_data option \<times> tables"

text \<open>
  The three stored procedures the webhook calls are not part of the JavaScript sources;
  the handler is parametrised by what they do when the datastore runs them.
\<close>

record rpcs =
  rpc_confirm_order_payment :: "string \<Rightarrow> string option \<Rightarrow> procedure"
  rpc_confirm_donation_payment :: "string \<Rightarrow> string option \<Rightarrow> procedure"
  rpc_mark_payment_failed :: "string \<Rightarrow> procedure"

text \<open>\<^verbatim>\<open>supabase.rpc(name, args)\<close>: \<open>{data, error}\<close>, as \<open>Inr data\<close> or \<open>Inl error\<close>.\<close>

definition rpc :: "faults \<Rightarrow> call \<Rightarrow> procedure \<Rightarrow> world \<Rightarrow> (string + rpc_data option) \<times> world" where
  "rpc faults c proc w =
     (let w' = issue c w in
      case faults c of
        Some err \<Rightarrow> (Inl err, w')
      | None \<Rightarrow> (case proc (db w') of (data, t) \<Rightarrow> (Inr data, w'\<lparr>db := t\<rparr>)))"

text \<open>What the update of \<^verbatim>\<open>handleRefund\<close> does to one row of \<^verbatim>\<open>orders\<close>.\<close>

definition mark_refunded :: "string \<Rightarrow> string \<Rightarrow> order_row \<Rightarrow> order_row" where
  "mark_refunded intent now r =
     (if stripe_payment_intent_id r = Some intent
      then r\<lparr>payment_status := Refunded, updated_at := Some now\<rparr> else r)"

text \<open>
  \<^verbatim>\<open>.from('orders').update({payment_status: 'refunded', updated_at: now}).eq('stripe_payment_intent_id', intent)\<close>.
\<close>

definition update_orders_refunded ::
  "faults \<Rightarrow> string \<Rightarrow> string \<Rightarrow> world \<Rightarrow> string option \<times> world" where
  "update_orders_refunded faults intent now w =
     (let c = UpdateOrdersRefunded intent now; w' = issue c w in
      case faults c of
        Some err \<Rightarrow> (Some err, w')
      | None \<Rightarrow>
          (None, w'\<lparr>db := (db w')\<lparr>orders :=
             map (mark_refunded intent now) (orders (db w'))\<rparr>\<rparr>))"

text \<open>
  Modelled from the spec: the quantity of an order item as the stored procedure reads
  it. Section 3: the quantity is an integer; the column holds the integer part of the
  number that was inserted.
\<close>

definition column_int :: "number \<Rightarrow> int" where
  "column_int n = (case n of Num x \<Rightarrow> \<lfloor>x\<rfloor> | _ \<Rightarrow> 0)"

definition item_qty :: "'a order_item_scheme \<Rightarrow> int" where
  "item_qty item = column_int (to_number (oi_qty item))"

text \<open>
  Modelled from the spec: the stored procedure \<^verbatim>\<open>confirm_order_payment\<close>, which is not in
  the JavaScript sources. Section 4.2: as one atomic unit, (a) verify the order is still
  in a confirmable state, a redelivery being a no-op; (b) decrement each line item's
  product stock by its quantity; (c) set \<^verbatim>\<open>payment_status = paid\<close> and attach the
  payment-intent identifier; the result reports \<^verbatim>\<open>{success, orderId}\<close>. Section 5: the
  decrement rejects insufficient stock at confirmation time.
\<close>

fun decrement_stock :: "order_item_row list \<Rightarrow> product list \<Rightarrow> product list option" where
  "decrement_stock [] ps = Some ps"
| "decrement_stock (i # rest) ps =
     (if \<exists>p \<in> set ps. p_id p = product_id i \<and> stock_qty p < item_qty i then None
      else decrement_stock rest
             (map (\<lambda>p. if p_id p = product_id i
                        then p\<lparr>stock_qty := stock_qty p - item_qty i\<rparr> else p) ps))"

definition confirm_order_payment :: "string \<Rightarrow> string option \<Rightarrow> procedure" where
  "confirm_order_payment sid intent t =
     (case find (\<lambda>r. stripe_checkout_session_id r = Some sid) (orders t) of
        None \<Rightarrow> (Some \<lparr>success = False, entity_id = None\<rparr>, t)
      | Some r \<Rightarrow>
          if payment_status r \<noteq> Pending then
            (Some \<lparr>success = False, entity_id = Some (o_id r)\<rparr>, t)
          else
            (case decrement_stock (filter (\<lambda>i. order_id i = o_id r) (order_items t))
                    (products t) of
               None \<Rightarrow> (Some \<lparr>success = False, entity_id = Some (o_id r)\<rparr>, t)
             | Some ps \<Rightarrow>
                 (Some \<lparr>success = True, entity_id = Some (o_id r)\<rparr>,
                  t\<lparr>products := ps,
                    orders :=
                      map (\<lambda>x. if o_id x = o_id r
                                 then x\<lparr>payment_status := Paid, stripe_payment_intent_id := intent\<rparr>
                                 else x) (orders t)\<rparr>)))"

text \<open>
  Modelled from the spec: the stored procedure \<^verbatim>\<open>confirm_donation_payment\<close>, not in the
  JavaScript sources. Section 4.2: analogous to the order confirmation but with no stock
  side effect, atomically guard-and-mark-paid only.
\<close>

definition confirm_donation_payment :: "string \<Rightarrow> string option \<Rightarrow> procedure" where
  "confirm_donation_payment sid intent t =
     (case find (\<lambda>r. don_stripe_checkout_session_id r = Some sid) (donations t) of
        None \<Rightarrow> (Some \<lparr>success = False, entity_id = None\<rparr>, t)
      | Some r \<Rightarrow>
          if don_payment_status r \<noteq> Pending then
            (Some \<lparr>success = False, entity_id = Some (don_id r)\<rparr>, t)
          else
            (Some \<lparr>success = True, entity_id = Some (don_id r)\<rparr>,
             t\<lparr>donations :=
                 map (\<lambda>x. if don_id x = don_id r
                            then x\<lparr>don_payment_status := Paid,
                                   don_stripe_payment_intent_id := intent\<rparr>
                            else x) (donations t)\<rparr>))"

text \<open>
  Modelled from the spec: the stored procedure \<^verbatim>\<open>mark_payment_failed\<close>, not in the
  JavaScript sources. Section 4.2: setting payment status to \<^verbatim>\<open>failed\<close> for the record
  matched by session id.
\<close>

definition mark_payment_failed :: "string \<Rightarrow> procedure" where
  "mark_payment_failed sid t =
     (Some \<lparr>success = (\<exists>r \<in> set (orders t). stripe_checkout_session_id r = Some sid)
                        \<or> (\<exists>r \<in> set (donations t). don_stripe_checkout_session_id r = Some sid),
            entity_id = None\<rparr>,
      t\<lparr>orders :=
          map (\<lambda>x. if stripe_checkout_session_id x = Some sid
                     then x\<lparr>payment_status := Failed\<rparr> else x) (orders t),
        donations :=
          map (\<lambda>x. if don_stripe_checkout_session_id x = Some sid
                     then x\<lparr>don_payment_status := Failed\<rparr> else x) (donations t)\<rparr>)"

definition stored_procedures :: rpcs where
  "stored_procedures =
     \<lparr>rpc_confirm_order_payment = confirm_order_payment,
      rpc_confirm_donation_payment = confirm_donation_payment,
      rpc_mark_payment_failed = mark_payment_failed\<rparr>"

subsection \<open>Webhook: the handlers\<close>

text \<open>
  A handler that throws returns \<open>Inl\<close> of the error. Console lines are the rendered first
  argument; an error given as second argument is kept, objects are not rendered.
\<close>

definition show_undefined :: "string option \<Rightarrow> string" where
  "show_undefined x = (case x of None \<Rightarrow> ''undefined'' | Some s \<Rightarrow> s)"

definition show_id :: "ident option \<Rightarrow> string" where
  "show_id x = (case x of None \<Rightarrow> ''undefined'' | Some i \<Rightarrow> show_nat i)"

definition data_success :: "rpc_data option \<Rightarrow> bool" where
  "data_success data = (case data of None \<Rightarrow> False | Some d \<Rightarrow> success d)"

definition data_id :: "rpc_data option \<Rightarrow> ident option" where
  "data_id data = (case data of None \<Rightarrow> None | Some d \<Rightarrow> entity_id d)"

definition handlePaymentConfirmed ::
  "faults \<Rightarrow> rpcs \<Rightarrow> checkout_session \<Rightarrow> world \<Rightarrow> (string + unit) \<times> world" where
  "handlePaymentConfirmed faults procs session w =
     (let sessionId = cs_id session;
          paymentIntent = cs_payment_intent session;
          type = cs_metadata_type session;
          w0 = say (ConsoleLog (credit_card @ '' Paiement confirm'' @ e_acute @ '' - session: ''
                                @ sessionId @ '' - type: '' @ show_undefined type)) w
      in
      if type = Some ''order'' then
        (case rpc faults (RpcConfirmOrderPayment sessionId paymentIntent)
                (rpc_confirm_order_payment procs sessionId paymentIntent) w0 of
           (Inl error, w1) \<Rightarrow>
             (Inl error,
              say (ConsoleError (cross_mark @ '' Erreur RPC confirm_order_payment:'') error) w1)
         | (Inr data, w1) \<Rightarrow>
             if \<not> data_success data then
               (Inr (),
                say (ConsoleWarn (warning_sign
                                  @ '' confirm_order_payment retourne success=false:'')) w1)
             else
               (Inr (),
                say (ConsoleLog (check_mark @ '' Commande confirm'' @ e_acute @ ''e : ''
                                 @ show_id (data_id data))) w1))
      else if type = Some ''donation'' then
        (case rpc faults (RpcConfirmDonationPayment sessionId paymentIntent)
                (rpc_confirm_donation_payment procs sessionId paymentIntent) w0 of
           (Inl error, w1) \<Rightarrow>
             (Inl error,
              say (ConsoleError (cross_mark @ '' Erreur RPC confirm_donation_payment:'') error) w1)
         | (Inr data, w1) \<Rightarrow>
             if data_success data then
               (Inr (),
                say (ConsoleLog (check_mark @ '' Don confirm'' @ e_acute @ '' : ''
                                 @ show_id (data_id data))) w1)
             else (Inr (), w1))
      else
        (Inr (),
         say (ConsoleWarn (warning_sign @ '' Type inconnu dans metadata: ''
                           @ show_undefined type)) w0))"

definition handlePaymentFailed ::
  "faults \<Rightarrow> rpcs \<Rightarrow> string \<Rightarrow> world \<Rightarrow> (string + unit) \<times> world" where
  "handlePaymentFailed faults procs sessionId w =
     (let w0 = say (ConsoleLog (cross_mark @ '' Paiement '' @ e_acute @ ''chou'' @ e_acute
                                @ '' - session: '' @ sessionId)) w
      in case rpc faults (RpcMarkPaymentFailed sessionId)
                (rpc_mark_payment_failed procs sessionId) w0 of
           (Inl error, w1) \<Rightarrow>
             (Inl error,
              say (ConsoleError (cross_mark @ '' Erreur RPC mark_payment_failed:'') error) w1)
         | (Inr data, w1) \<Rightarrow>
             (Inr (),
              say (ConsoleLog (check_mark @ '' Statut mis '' @ [CHR 0xC3, CHR 0xA0]
                               @ '' jour : failed pour session '' @ sessionId)) w1))"

text \<open>\<^verbatim>\<open>now\<close> is the value of \<^verbatim>\<open>new Date().toISOString()\<close> at the call.\<close>

definition handleRefund ::
  "faults \<Rightarrow> string \<Rightarrow> charge \<Rightarrow> world \<Rightarrow> (string + unit) \<times> world" where
  "handleRefund faults now charge w =
     (case ch_payment_intent charge of
        None \<Rightarrow> (Inr (), w)
      | Some paymentIntentId \<Rightarrow>
          if paymentIntentId = [] then (Inr (), w)
          else
            (case update_orders_refunded faults paymentIntentId now w of
               (Some error, w1) \<Rightarrow>
                 (Inr (),
                  say (ConsoleError (cross_mark @ '' Erreur mise '' @ [CHR 0xC3, CHR 0xA0]
                                     @ '' jour remboursement:'') error) w1)
             | (None, w1) \<Rightarrow>
                 (Inr (),
                  say (ConsoleLog (check_mark @ '' Remboursement enregistr'' @ e_acute
                                   @ '' pour payment_intent: '' @ paymentIntentId)) w1)))"

text \<open>The \<^verbatim>\<open>switch\<close> of lines 51--86, the body of the \<^verbatim>\<open>try\<close>.\<close>

fun route :: "faults \<Rightarrow> rpcs \<Rightarrow> string \<Rightarrow> stripe_event \<Rightarrow> world \<Rightarrow> (string + unit) \<times> world" where
  "route faults procs now (CheckoutSessionCompleted session) w =
     handlePaymentConfirmed faults procs session w"
| "route faults procs now (CheckoutSessionExpired session) w =
     handlePaymentFailed faults procs (cs_id session) w"
| "route faults procs now (PaymentIntentPaymentFailed paymentIntent) w =
     (case pi_metadata_session_id paymentIntent of
        None \<Rightarrow> (Inr (), w)
      | Some sid \<Rightarrow> if sid = [] then (Inr (), w) else handlePaymentFailed faults procs sid w)"
| "route faults procs now (ChargeRefunded charge) w = handleRefund faults now charge w"
| "route faults procs now (OtherEvent t) w =
     (Inr (), say (ConsoleLog (E_acute @ ''v'' @ e_acute @ ''nement ignor'' @ e_acute @ '' : '' @ t)) w)"

record http_event =
  httpMethod :: string
  stripe_signature :: "string option"
  raw_body :: string

record webhook_response =
  wh_statusCode :: nat
  wh_body :: string

text \<open>
  \<^verbatim>\<open>exports.handler\<close> of \<^verbatim>\<open>stripe_webhook.js\<close>. \<^verbatim>\<open>constructEvent\<close> stands for
  \<^verbatim>\<open>stripe.webhooks.constructEvent\<close> with the configured secret: it throws (\<open>Inl\<close> of the
  error's message) or returns the verified event.
\<close>

type_synonym construct_event = "string \<Rightarrow> string option \<Rightarrow> string + stripe_event"

definition received_body :: string where
  "received_body = ''{'' @ dquote @ ''received'' @ dquote @ '':true}''"

definition internal_error_body :: string where
  "internal_error_body = ''Webhook re'' @ c_cedilla @ ''u avec erreur interne''"

definition event_received_line :: "stripe_event \<Rightarrow> console_entry" where
  "event_received_line stripeEvent =
     ConsoleLog (check_mark @ '' '' @ E_acute @ ''v'' @ e_acute @ ''nement Stripe re''
                 @ c_cedilla @ ''u : '' @ event_type stripeEvent)"

definition processing_error_line :: "string \<Rightarrow> console_entry" where
  "processing_error_line err = ConsoleError (cross_mark @ '' Erreur traitement webhook:'') err"

definition handler ::
  "construct_event \<Rightarrow> faults \<Rightarrow> rpcs \<Rightarrow> string \<Rightarrow> http_event \<Rightarrow> world
     \<Rightarrow> webhook_response \<times> world" where
  "handler constructEvent faults procs now event w =
     (if httpMethod event \<noteq> ''POST'' then
        (\<lparr>wh_statusCode = 405, wh_body = ''Method not allowed''\<rparr>, w)
      else
        (case constructEvent (raw_body event) (stripe_signature event) of
           Inl errMessage \<Rightarrow>
             (\<lparr>wh_statusCode = 400, wh_body = ''Webhook signature invalide : '' @ errMessage\<rparr>,
              say (ConsoleError (cross_mark @ '' Signature Stripe invalide:'') errMessage) w)
         | Inr stripeEvent \<Rightarrow>
             (case route faults procs now stripeEvent (say (event_received_line stripeEvent) w) of
                (Inl err, w1) \<Rightarrow>
                  (\<lparr>wh_statusCode = 200, wh_body = internal_error_body\<rparr>,
                   say (processing_error_line err) w1)
              | (Inr _, w1) \<Rightarrow>
                  (\<lparr>wh_statusCode = 200, wh_body = received_body\<rparr>, w1))))"

subsection \<open>Example data\<close>

text \<open>
  The scenario of the specification: product P1 priced 1500 cents, stock 5, active; one
  active delivery date; no order yet. A second, inactive product is added for the
  examples that need it.
\<close>

definition shop :: tables where
  "shop =
     \<lparr>delivery_dates =
        [\<lparr>dd_id = 1, delivery_date = ''2025-06-01'', label = ''Dimanche'', dd_active = True\<rparr>],
      products =
        [\<lparr>p_id = 1, p_name = ''Vary'', unit_price_cents = 1500, stock_qty = 5,
          p_active = True, emoji = ''*''\<rparr>,
         \<lparr>p_id = 2, p_name = ''Kafe'', unit_price_cents = 700, stock_qty = 10,
          p_active = False, emoji = ''*''\<rparr>],
      orders = [],
      order_items = [],
      donations = []\<rparr>"

definition shop_world :: world where
  "shop_world = \<lparr>db = shop, trace = [], console = []\<rparr>"

definition alice :: customer where
  "alice =
     \<lparr>firstName = ''Alice'', lastName = ''Rakoto'', address = ''1 rue A'',
      churchName = ''FLM'', sectionName = ''Bordeaux'', phone = [],
      email = ''a@example.org''\<rparr>"

definition to_church :: delivery where
  "to_church = \<lparr>d_address = ''2 rue B'', dateId = Some 1\<rparr>"

definition gift :: donation where
  "gift =
     \<lparr>dn_firstName = ''A'', dn_lastName = ''B'', dn_email = [], dn_phone = [],
      dn_church = [], dn_section = [], dn_message = [], amountCents = whole 500\<rparr>"

definition stripe_up :: create_session where
  "stripe_up req =
     Inr \<lparr>session_id = ''cs_test_1'', url = ''https://checkout.stripe.com/c/pay/cs_test_1''\<rparr>"

definition stripe_down :: create_session where
  "stripe_down req = Inl ''An error occurred with our connection to Stripe.''"

definition no_faults :: faults where
  "no_faults c = None"

definition datastore_down :: faults where
  "datastore_down c = Some ''fetch failed''"

text \<open>The datastore accepts the order header and then stops answering.\<close>

definition down_after_header :: faults where
  "down_after_header c =
     (case c of
        InsertOrderItems rows \<Rightarrow> Some ''fetch failed''
      | DeleteOrder i \<Rightarrow> Some ''fetch failed''
      | _ \<Rightarrow> None)"

definition items_rejected :: faults where
  "items_rejected c = (case c of InsertOrderItems rows \<Rightarrow> Some ''insert failed'' | _ \<Rightarrow> None)"

definition updates_rejected :: faults where
  "updates_rejected c =
     (case c of
        UpdateOrderPaymentStatus i s \<Rightarrow> Some ''update failed''
      | UpdateOrderSession i sid \<Rightarrow> Some ''update failed''
      | UpdateDonationSession i sid \<Rightarrow> Some ''update failed''
      | DeleteDonation i \<Rightarrow> Some ''delete failed''
      | _ \<Rightarrow> None)"

definition paid_session :: checkout_session where
  "paid_session =
     \<lparr>cs_id = ''cs_test_1'', cs_payment_intent = Some ''pi_1'', cs_metadata_type = Some ''order''\<rparr>"

text \<open>
  A signature check that accepts one signature, and reads two fixed payloads as a
  payment-completed event and a refund, any other as an unknown event.
\<close>

definition demo_verifier :: construct_event where
  "demo_verifier payload sig =
     (case sig of
        None \<Rightarrow> Inl ''No stripe-signature header value was provided.''
      | Some s \<Rightarrow>
          if s \<noteq> ''t=1,v1=valid'' then
            Inl ''No signatures found matching the expected signature for payload.''
          else if payload = ''completed'' then Inr (CheckoutSessionCompleted paid_session)
          else if payload = ''refunded'' then
            Inr (ChargeRefunded \<lparr>ch_payment_intent = Some ''pi_1''\<rparr>)
          else Inr (OtherEvent payload))"

definition unsigned_post :: http_event where
  "unsigned_post = \<lparr>httpMethod = ''POST'', stripe_signature = None, raw_body = ''completed''\<rparr>"

definition signed_post :: "string \<Rightarrow> http_event" where
  "signed_post payload =
     \<lparr>httpMethod = ''POST'', stripe_signature = Some ''t=1,v1=valid'', raw_body = payload\<rparr>"

definition noon :: string where
  "noon = ''2025-06-01T12:00:00.000Z''"

text \<open>
  Carts for the examples: two units of P1; the same line on which the client also sent a
  price of 1 cent; and twice three units of P1, of which five are in stock.
\<close>

definition two_of_p1 :: "cart_item list" where
  "two_of_p1 = [\<lparr>productId = 1, qty = whole 2\<rparr>]"

definition two_of_p1_client_price :: "int cart_item_scheme list" where
  "two_of_p1_client_price = [\<lparr>productId = 1, qty = whole 2, \<dots> = 1\<rparr>]"

definition twice_three_of_p1 :: "cart_item list" where
  "twice_three_of_p1 = [\<lparr>productId = 1, qty = whole 3\<rparr>, \<lparr>productId = 1, qty = whole 3\<rparr>]"

text \<open>A cart whose second line names the inactive product.\<close>

definition with_inactive :: "cart_item list" where
  "with_inactive = [\<lparr>productId = 1, qty = whole 2\<rparr>, \<lparr>productId = 2, qty = whole 1\<rparr>]"

text \<open>
  A datastore whose product P1 is priced at 9007199254740991 cents, the largest integer
  below \<open>2 ^ 53\<close>, and a cart of three units of it.
\<close>

definition priced_high :: world where
  "priced_high =
     \<lparr>db = shop\<lparr>products :=
             [\<lparr>p_id = 1, p_name = ''Vary'', unit_price_cents = 9007199254740991, stock_qty = 5,
               p_active = True, emoji = ''*''\<rparr>]\<rparr>,
      trace = [], console = []\<rparr>"

definition three_of_p1 :: "cart_item list" where
  "three_of_p1 = [\<lparr>productId = 1, qty = whole 3\<rparr>]"

text \<open>
  A datastore with no row at all; a datastore service that answers the donation's insert
  and delete and nothing else; and one that refuses nothing but the update storing a
  donation's session id.
\<close>

definition empty_world :: world where
  "empty_world =
     \<lparr>db = \<lparr>delivery_dates = [], products = [], orders = [], order_items = [],
             donations = []\<rparr>,
      trace = [], console = []\<rparr>"

definition donations_only :: faults where
  "donations_only c =
     (case c of
        InsertDonation row \<Rightarrow> None
      | DeleteDonation i \<Rightarrow> None
      | _ \<Rightarrow> Some ''fetch failed'')"

definition donation_session_refused :: faults where
  "donation_session_refused c =
     (case c of UpdateDonationSession i sid \<Rightarrow> Some ''update failed'' | _ \<Rightarrow> None)"

text \<open>
  A datastore for the refund examples: two paid orders with payment intents
  \<^verbatim>\<open>pi_2\<close> and \<^verbatim>\<open>pi_3\<close>, and one paid donation with payment intent \<^verbatim>\<open>pi_1\<close>.
\<close>

definition paid_order :: "ident \<Rightarrow> string \<Rightarrow> string \<Rightarrow> order_row" where
  "paid_order i sid intent =
     \<lparr>status = New, payment_status = Paid, payment_method = ''stripe'',
      customer_first_name = ''Alice'', customer_last_name = ''Rakoto'',
      customer_address = ''1 rue A'', customer_phone = None, customer_email = None,
      church_name = ''FLM'', section_name = ''Bordeaux'',
      delivery_address = ''2 rue B'', delivery_date_id = 1,
      currency = ''EUR'', total_amount_cents = Num 3000,
      o_id = i, stripe_checkout_session_id = Some sid,
      stripe_payment_intent_id = Some intent, updated_at = None\<rparr>"

definition paid_donation :: donation_row where
  "paid_donation =
     \<lparr>donor_first_name = ''A'', donor_last_name = ''B'', donor_email = None,
      donor_phone = None, don_church_name = None, don_section_name = None,
      message = None, amount_cents = whole 500, don_currency = ''EUR'',
      don_payment_status = Paid,
      don_id = 1, don_stripe_checkout_session_id = Some ''cs_test_9'',
      don_stripe_payment_intent_id = Some ''pi_1''\<rparr>"

definition books :: world where
  "books =
     \<lparr>db = shop\<lparr>orders := [paid_order 1 ''cs_test_2'' ''pi_2'', paid_order 2 ''cs_test_3'' ''pi_3''],
                 donations := [paid_donation]\<rparr>,
      trace = [], console = []\<rparr>"

text \<open>
  The datastore after a checkout of two units of P1 that went through: one pending
  order with its item and the stored session id \<^verbatim>\<open>cs_test_1\<close>.
\<close>

definition awaiting_payment :: world where
  "awaiting_payment =
     snd (handleOrder no_faults stripe_up two_of_p1 (Some alice) (Some to_church) shop_world)"

subsection \<open>Vocabulary of the properties\<close>

text \<open>
  A cart line is valid against a product list when the product it names exists, is
  active, has enough stock, and the quantity is positive, as the loop tests it: the stock
  is not less than the quantity and the quantity is not at most zero, compared as
  JavaScript numbers. The product looked up is the first one with the line's id, as
  \<^verbatim>\<open>products.find\<close> does.
\<close>

definition valid_line :: "product list \<Rightarrow> 'a cart_item_scheme \<Rightarrow> bool" where
  "valid_line prods cartItem =
     (case find (\<lambda>p. p_id p = productId cartItem) prods of
        None \<Rightarrow> False
      | Some product \<Rightarrow>
          p_active product
          \<and> \<not> js_less (from_int (stock_qty product)) (to_number (qty cartItem))
          \<and> \<not> js_le (to_number (qty cartItem)) (Num 0))"

text \<open>
  An order item is the server-side snapshot of a cart line: product id, name, emoji and
  unit price are those of the datastore's product, the quantity is the line's, and the
  line total is unit price times quantity, as JavaScript multiplies them.
\<close>

definition snapshot_of :: "product list \<Rightarrow> 'a cart_item_scheme \<Rightarrow> 'b order_item_scheme \<Rightarrow> bool" where
  "snapshot_of prods cartItem item =
     (case find (\<lambda>p. p_id p = productId cartItem) prods of
        None \<Rightarrow> False
      | Some product \<Rightarrow>
          product_id item = p_id product
          \<and> product_name_snapshot item = p_name product
          \<and> product_emoji_snapshot item = emoji product
          \<and> unit_price_cents_snapshot item = from_int (unit_price_cents product)
          \<and> oi_qty item = qty cartItem
          \<and> line_total_cents item
              = js_times (unit_price_cents_snapshot item) (to_number (oi_qty item)))"

text \<open>
  The request gets as far as the cart loop: the field checks pass, the delivery date is
  found, alone and active, and neither read is answered with an error.
\<close>

definition reaches_cart_loop ::
  "faults \<Rightarrow> 'a cart_item_scheme list \<Rightarrow> customer option \<Rightarrow> delivery option \<Rightarrow> world
     \<Rightarrow> customer \<Rightarrow> delivery \<Rightarrow> ident \<Rightarrow> bool" where
  "reaches_cart_loop faults cart customer delivery w c d i =
     (validate_order_fields cart customer delivery = Inr (c, d, i)
      \<and> faults (SelectDeliveryDate i) = None
      \<and> map dd_active (filter (\<lambda>r. dd_id r = i) (delivery_dates (db w))) = [True]
      \<and> faults (SelectProducts (map productId cart)) = None)"

text \<open>The world after the two reads.\<close>

definition after_reads :: "'a cart_item_scheme list \<Rightarrow> ident \<Rightarrow> world \<Rightarrow> world" where
  "after_reads cart i w =
     issue (SelectProducts (map productId cart)) (issue (SelectDeliveryDate i) w)"

text \<open>
  The total of a cart at the datastore's prices, as the loop accumulates it: starting
  from zero, each line's product of \<^verbatim>\<open>unit_price_cents\<close> and \<^verbatim>\<open>qty\<close> is added in cart order,
  every product and every sum rounded as JavaScript rounds it.
\<close>

definition line_total :: "product list \<Rightarrow> 'a cart_item_scheme \<Rightarrow> number" where
  "line_total prods cartItem =
     (case find (\<lambda>p. p_id p = productId cartItem) prods of
        None \<Rightarrow> Num 0
      | Some product \<Rightarrow> js_times (from_int (unit_price_cents product)) (to_number (qty cartItem)))"

definition cart_total :: "product list \<Rightarrow> 'a cart_item_scheme list \<Rightarrow> number" where
  "cart_total prods cart =
     foldl (\<lambda>totalCents cartItem. js_plus totalCents (line_total prods cartItem)) (Num 0) cart"

text \<open>
  The same total in exact arithmetic: the sum over the cart lines of the product's
  \<^verbatim>\<open>unit_price_cents\<close> times the line's \<^verbatim>\<open>qty\<close>, with no rounding.
\<close>

definition exact_line :: "product list \<Rightarrow> 'a cart_item_scheme \<Rightarrow> rat" where
  "exact_line prods cartItem =
     (case find (\<lambda>p. p_id p = productId cartItem) prods of
        None \<Rightarrow> 0
      | Some product \<Rightarrow>
          (case to_number (qty cartItem) of
             Num x \<Rightarrow> of_int (unit_price_cents product) * x
           | _ \<Rightarrow> 0))"

definition exact_total :: "product list \<Rightarrow> 'a cart_item_scheme list \<Rightarrow> rat" where
  "exact_total prods cart = sum_list (map (exact_line prods) cart)"

text \<open>
  A cart line is in whole units when its quantity is an integer. A cart is within the
  safe range when every line is in whole units and, in exact arithmetic, every line
  total and every running total of the loop is of magnitude below \<open>2 ^ 53\<close>, the first
  integer from which JavaScript numbers no longer hold every integer.
\<close>

definition whole_line :: "'a cart_item_scheme \<Rightarrow> bool" where
  "whole_line cartItem =
     (case to_number (qty cartItem) of
        Num x \<Rightarrow> x = of_int \<lfloor>x\<rfloor>
      | _ \<Rightarrow> False)"

fun safe_sums :: "rat \<Rightarrow> rat list \<Rightarrow> bool" where
  "safe_sums tot [] = True"
| "safe_sums tot (x # xs) = (\<bar>x\<bar> < 2 ^ 53 \<and> \<bar>tot + x\<bar> < 2 ^ 53 \<and> safe_sums (tot + x) xs)"

definition safe_range :: "product list \<Rightarrow> 'a cart_item_scheme list \<Rightarrow> bool" where
  "safe_range prods cart =
     (list_all whole_line cart \<and> safe_sums 0 (map (exact_line prods) cart))"

text \<open>
  An order item is the exact snapshot of a cart line when it is its snapshot and the
  stored price and line total are the exact ones.
\<close>

definition exact_snapshot_of ::
  "product list \<Rightarrow> 'a cart_item_scheme \<Rightarrow> 'b order_item_scheme \<Rightarrow> bool" where
  "exact_snapshot_of prods cartItem item =
     (case find (\<lambda>p. p_id p = productId cartItem) prods of
        None \<Rightarrow> False
      | Some product \<Rightarrow>
          snapshot_of prods cartItem item
          \<and> unit_price_cents_snapshot item = Num (of_int (unit_price_cents product))
          \<and> line_total_cents item = Num (exact_line prods cartItem))"

text \<open>The id the datastore gives to the next order, and to the next donation.\<close>

definition next_order_id :: "world \<Rightarrow> ident" where
  "next_order_id w = fresh_id (map o_id (orders (db w)))"

definition next_donation_id :: "world \<Rightarrow> ident" where
  "next_donation_id w = fresh_id (map don_id (donations (db w)))"

text \<open>The world once the datastore has accepted the donation's insert.\<close>

definition donation_inserted :: "donation \<Rightarrow> world \<Rightarrow> world" where
  "donation_inserted donation w =
     (issue (InsertDonation (donation_header donation)) w)
       \<lparr>db := (db w)\<lparr>donations :=
          donations (db w) @
          [donation_insert.extend (donation_header donation)
             \<lparr>don_id = next_donation_id w, don_stripe_checkout_session_id = None,
              don_stripe_payment_intent_id = None\<rparr>]\<rparr>\<rparr>"

text \<open>
  The four ways a cart line can be refused, in the order the loop tests them, and the
  way a line is refused, if it is: the quantity exceeds the stock, or is not positive,
  when JavaScript's \<^verbatim>\<open><\<close>, respectively \<^verbatim>\<open><=\<close>, says so.
\<close>

datatype rejection = UnknownProduct | InactiveProduct | InsufficientStock | InvalidQuantity

definition rejection_of :: "product list \<Rightarrow> 'a cart_item_scheme \<Rightarrow> rejection option" where
  "rejection_of prods cartItem =
     (case find (\<lambda>p. p_id p = productId cartItem) prods of
        None \<Rightarrow> Some UnknownProduct
      | Some product \<Rightarrow>
          if \<not> p_active product then Some InactiveProduct
          else if js_less (from_int (stock_qty product)) (to_number (qty cartItem))
            then Some InsufficientStock
          else if js_le (to_number (qty cartItem)) (Num 0) then Some InvalidQuantity
          else None)"

text \<open>
  What a reader of the 400 response can tell from the message: the failure kind is
  recognised by the fixed text the message begins with.
\<close>

definition message_kind :: "string \<Rightarrow> rejection option" where
  "message_kind msg =
     (if prefix ''Produit introuvable : '' msg then Some UnknownProduct
      else if prefix ''Produit non disponible : '' msg then Some InactiveProduct
      else if prefix ''Stock insuffisant pour '' msg then Some InsufficientStock
      else if prefix (''Quantit'' @ e_acute @ '' invalide pour : '') msg then Some InvalidQuantity
      else None)"

text \<open>The calls that only read the datastore.\<close>

definition is_read :: "call \<Rightarrow> bool" where
  "is_read c =
     (case c of SelectDeliveryDate i \<Rightarrow> True | SelectProducts ids \<Rightarrow> True | _ \<Rightarrow> False)"

text \<open>The calls a request has added to the trace.\<close>

definition calls_of :: "world \<Rightarrow> world \<Rightarrow> call list" where
  "calls_of w w' = drop (length (trace w)) (trace w')"

text \<open>The quantity of a product that a list of order items asks for.\<close>

definition ordered_qty :: "'a order_item_scheme list \<Rightarrow> ident \<Rightarrow> int" where
  "ordered_qty items pid = (\<Sum>item\<leftarrow>items. if product_id item = pid then item_qty item else 0)"

text \<open>The stock of every product lowered by what the items ask for.\<close>

definition stock_after :: "'a order_item_scheme list \<Rightarrow> product list \<Rightarrow> product list" where
  "stock_after items ps =
     map (\<lambda>p. p\<lparr>stock_qty := stock_qty p - ordered_qty items (p_id p)\<rparr>) ps"

text \<open>The RPC call of a payment-completed notification for an order.\<close>

definition confirm_call :: "checkout_session \<Rightarrow> call" where
  "confirm_call session = RpcConfirmOrderPayment (cs_id session) (cs_payment_intent session)"

section \<open>Properties\<close>

subsection \<open>Webhook authentication and acknowledgement\<close>

text \<open>
  Claim C4. A webhook request whose Stripe signature verification fails (the signature
  is invalid or missing, so \<^verbatim>\<open>constructEvent\<close> throws) is answered with status 400, and
  the handler makes no datastore call: the trace and the tables are unchanged. (A request
  that is not a POST is answered 405 before the signature is looked at, with no datastore
  call either.)
\<close>

theorem handler_rejects_unverified:
  assumes "constructEvent (raw_body event) (stripe_signature event) = Inl errMessage"
  shows "wh_statusCode (fst (handler constructEvent faults procs now event w))
           = (if httpMethod event = ''POST'' then 400 else 405)
         \<and> db (snd (handler constructEvent faults procs now event w)) = db w
         \<and> trace (snd (handler constructEvent faults procs now event w)) = trace w"
  using assms by (simp add: handler_def say_def)

theorem handler_rejects_unverified_witness:
  "demo_verifier (raw_body unsigned_post) (stripe_signature unsigned_post)
     = Inl ''No stripe-signature header value was provided.''
   \<and> wh_statusCode (fst (handler demo_verifier no_faults stored_procedures noon
                            unsigned_post shop_world)) = 400
   \<and> db (snd (handler demo_verifier no_faults stored_procedures noon
                 unsigned_post shop_world)) = shop
   \<and> trace (snd (handler demo_verifier no_faults stored_procedures noon
                    unsigned_post shop_world)) = []"
proof -
  have h: "demo_verifier (raw_body unsigned_post) (stripe_signature unsigned_post)
             = Inl ''No stripe-signature header value was provided.''"
    by (simp add: demo_verifier_def unsigned_post_def)
  show ?thesis
    using handler_rejects_unverified
            [where constructEvent = demo_verifier and event = unsigned_post
               and faults = no_faults and procs = stored_procedures and now = noon
               and w = shop_world, OF h] h
    by (simp add: shop_world_def unsigned_post_def)
qed

text \<open>
  Claim C6. A POST request that passes signature verification is always answered with
  status 200. When the processing of the event throws, the error is written to the
  console and the acknowledgement body for an internal error is returned; otherwise the
  body is \<^verbatim>\<open>{"received":true}\<close>.
\<close>

theorem handler_acknowledges_verified:
  assumes "httpMethod event = ''POST''"
    and "constructEvent (raw_body event) (stripe_signature event) = Inr stripeEvent"
  shows "wh_statusCode (fst (handler constructEvent faults procs now event w)) = 200
         \<and> (case route faults procs now stripeEvent (say (event_received_line stripeEvent) w) of
               (Inl err, w1) \<Rightarrow>
                 handler constructEvent faults procs now event w
                   = (\<lparr>wh_statusCode = 200, wh_body = internal_error_body\<rparr>,
                      say (processing_error_line err) w1)
             | (Inr u, w1) \<Rightarrow>
                 handler constructEvent faults procs now event w
                   = (\<lparr>wh_statusCode = 200, wh_body = received_body\<rparr>, w1))"
  using assms by (simp add: handler_def split: prod.splits sum.splits)

theorem handler_acknowledges_verified_witness:
  "httpMethod (signed_post ''completed'') = ''POST''
   \<and> demo_verifier (raw_body (signed_post ''completed''))
        (stripe_signature (signed_post ''completed''))
       = Inr (CheckoutSessionCompleted paid_session)
   \<and> fst (route datastore_down stored_procedures noon (CheckoutSessionCompleted paid_session)
          (say (event_received_line (CheckoutSessionCompleted paid_session)) shop_world))
       = Inl ''fetch failed''
   \<and> fst (handler demo_verifier datastore_down stored_procedures noon
             (signed_post ''completed'') shop_world)
       = \<lparr>wh_statusCode = 200, wh_body = internal_error_body\<rparr>"
proof -
  have m: "httpMethod (signed_post ''completed'') = ''POST''"
    by (simp add: signed_post_def)
  have v: "demo_verifier (raw_body (signed_post ''completed''))
             (stripe_signature (signed_post ''completed''))
           = Inr (CheckoutSessionCompleted paid_session)"
    by (simp add: demo_verifier_def signed_post_def)
  have r: "fst (route datastore_down stored_procedures noon (CheckoutSessionCompleted paid_session)
          (say (event_received_line (CheckoutSessionCompleted paid_session)) shop_world))
     = Inl ''fetch failed''"
    by (simp add: handlePaymentConfirmed_def paid_session_def rpc_def datastore_down_def Let_def)
  show ?thesis
    using handler_acknowledges_verified
            [where constructEvent = demo_verifier and event = "signed_post ''completed''"
               and faults = datastore_down and procs = stored_procedures and now = noon
               and w = shop_world, OF m v] m v r
    by (auto split: prod.splits sum.splits)
qed

subsection \<open>JavaScript numbers in the safe range\<close>

text \<open>
  An integer of magnitude below \<open>2 ^ 53\<close> is a JavaScript number: rounding leaves it as it
  is.
\<close>

lemma round_half_even_int [simp]: "round_half_even (of_int m) = m"
  by (simp add: round_half_even_def)

lemma scale2_back:
  assumes "q \<le> 0"
  shows "scale2 (of_int (round_half_even (scale2 (of_int n) (- q)))) q = of_int n"
proof -
  have "scale2 (of_int n :: rat) (- q) = of_int (n * 2 ^ nat (- q))"
    using assms by (simp add: scale2_def)
  then have "round_half_even (scale2 (of_int n) (- q)) = n * 2 ^ nat (- q)"
    by (simp only: round_half_even_int)
  then show ?thesis using assms by (auto simp: scale2_def)
qed

lemma bitlen_safe:
  assumes "0 < n" and "n < 2 ^ 53"
  shows "bitlen n \<le> 53"
proof (rule ccontr)
  assume "\<not> bitlen n \<le> 53"
  then have "53 \<le> nat (bitlen n - 1)" by simp
  then have "(2::int) ^ 53 \<le> 2 ^ nat (bitlen n - 1)"
    by (intro power_increasing) simp_all
  with bitlen_bounds [OF assms(1)] assms(2) show False by linarith
qed

lemma round_magnitude_safe:
  assumes "0 < n" and "n < 2 ^ 53"
  shows "round_magnitude (of_int n) = of_int n"
proof -
  have b: "binade (of_int n) = bitlen n - 1"
    using assms(1) by (simp add: binade_def)
  have "1 \<le> bitlen n" using assms(1) bitlen_eq_zero_iff [of n] bitlen_nonneg [of n] by linarith
  with bitlen_safe [OF assms] have q: "max (bitlen n - 53) (- 1074) = bitlen n - 53"
    "bitlen n - 53 \<le> 0" by simp_all
  have "round_magnitude (of_int n)
          = scale2 (of_int (round_half_even (scale2 (of_int n) (- (bitlen n - 53))))) (bitlen n - 53)"
    using q(1) by (simp add: round_magnitude_def b Let_def)
  also have "\<dots> = of_int n" by (rule scale2_back [OF q(2)])
  finally show ?thesis .
qed

lemma round64_safe:
  assumes "\<bar>n\<bar> < 2 ^ 53"
  shows "round64 (of_int n) = Num (of_int n)"
proof -
  consider "n = 0" | "0 < n" | "n < 0" by linarith
  then show ?thesis
  proof cases
    case 1
    then show ?thesis by (simp add: round64_def)
  next
    case 2
    with assms have "n < 2 ^ 53" by simp
    from round_magnitude_safe [OF 2 this] have m: "round_magnitude \<bar>of_int n\<bar> = of_int n"
      using 2 by simp
    have "(of_int n :: rat) < 2 ^ 1024"
    proof -
      have "(of_int n :: rat) < of_int (2 ^ 53)" using \<open>n < 2 ^ 53\<close> by (simp only: of_int_less_iff)
      also have "\<dots> \<le> 2 ^ 1024" by simp
      finally show ?thesis .
    qed
    with 2 m show ?thesis by (simp add: round64_def Let_def)
  next
    case 3
    with assms have p: "0 < - n" "- n < 2 ^ 53" by simp_all
    from round_magnitude_safe [OF p] have m: "round_magnitude \<bar>of_int n\<bar> = - of_int n"
      using 3 by simp
    have "(of_int (- n) :: rat) < 2 ^ 1024"
    proof -
      have "(of_int (- n) :: rat) < of_int (2 ^ 53)" using p(2) by (simp only: of_int_less_iff)
      also have "\<dots> \<le> 2 ^ 1024" by simp
      finally show ?thesis .
    qed
    with 3 m show ?thesis by (simp add: round64_def Let_def)
  qed
qed


lemma from_int_safe: "\<bar>n\<bar> < 2 ^ 53 \<Longrightarrow> from_int n = Num (of_int n)"
  by (simp add: from_int_def round64_safe)

lemma round64_numeral: "(numeral k :: int) < 2 ^ 53 \<Longrightarrow> round64 (numeral k) = Num (numeral k)"
  using round64_safe [of "numeral k"] by simp

lemma to_number_whole: "\<bar>n\<bar> < 2 ^ 53 \<Longrightarrow> to_number (whole n) = Num (of_int n)"
  by (simp add: whole_def from_int_safe)

lemma to_boolean_whole: "to_boolean (whole n) \<longleftrightarrow> n \<noteq> 0"
  by (simp add: whole_def)

lemmas number_simps = from_int_safe round64_numeral to_number_whole to_boolean_whole

subsection \<open>The cart loop and the order header\<close>

lemma fresh_id_notin: "fresh_id ids \<notin> set ids"
proof
  assume m: "fresh_id ids \<in> set ids"
  have "fold max ids 0 = Max (set (0 # ids))" by (simp only: Max.set_eq_fold)
  moreover from m have "fresh_id ids \<le> Max (set (0 # ids))" by (intro Max_ge) auto
  ultimately show False by (simp add: fresh_id_def)
qed

lemma find_filter_superset: "(\<And>x. P x \<Longrightarrow> Q x) \<Longrightarrow> find P (filter Q xs) = find P xs"
  by (induction xs) auto

lemma build_lines_fetched:
  "set (map productId cart) \<subseteq> set ids \<Longrightarrow>
   build_lines (filter (\<lambda>p. p_id p \<in> set ids) ps) cart a b t = build_lines ps cart a b t"
proof (induction cart arbitrary: a b t)
  case Nil
  then show ?case by simp
next
  case (Cons c cart)
  then have "find (\<lambda>p. p_id p = productId c) (filter (\<lambda>p. p_id p \<in> set ids) ps)
             = find (\<lambda>p. p_id p = productId c) ps"
    by (intro find_filter_superset) auto
  with Cons show ?case by (simp split: option.splits add: Let_def)
qed

lemma build_lines_invalid:
  "\<not> list_all (valid_line prods) cart \<Longrightarrow> \<exists>msg. build_lines prods cart a b t = Inl msg"
  by (induction cart arbitrary: a b t)
     (auto simp: valid_line_def Let_def split: option.splits)

lemma build_lines_valid:
  "list_all (valid_line prods) cart \<Longrightarrow>
   \<exists>new lines. build_lines prods cart a b t
                  = Inr (a @ new, lines,
                         foldl (\<lambda>totalCents cartItem. js_plus totalCents (line_total prods cartItem))
                           t cart)
                \<and> list_all2 (snapshot_of prods) cart new"
proof (induction cart arbitrary: a b t)
  case Nil
  then show ?case by simp
next
  case (Cons c cart)
  from Cons.prems have h: "valid_line prods c" and rest: "list_all (valid_line prods) cart"
    by simp_all
  from h obtain p where p: "find (\<lambda>p. p_id p = productId c) prods = Some p"
    and ok: "p_active p" "\<not> js_less (from_int (stock_qty p)) (to_number (qty c))"
      "\<not> js_le (to_number (qty c)) (Num 0)"
    by (auto simp: valid_line_def split: option.splits)
  let ?lt = "js_times (from_int (unit_price_cents p)) (to_number (qty c))"
  let ?it = "\<lparr>product_id = p_id p, product_name_snapshot = p_name p,
              product_emoji_snapshot = emoji p,
              unit_price_cents_snapshot = from_int (unit_price_cents p),
              oi_qty = qty c, line_total_cents = ?lt\<rparr>"
  let ?f = "\<lambda>totalCents cartItem. js_plus totalCents (line_total prods cartItem)"
  from Cons.IH [OF rest] obtain new lines where
    r: "build_lines prods cart (a @ [?it])
          (b @ [\<lparr>li_currency = ''eur'', unit_amount = whole (unit_price_cents p),
                 li_name = p_name p,
                 li_description = emoji p @ '' Projet VOKATRA '' @ en_dash @ '' FLM Bordeaux'',
                 quantity = qty c\<rparr>])
          (js_plus t ?lt)
        = Inr ((a @ [?it]) @ new, lines, foldl ?f (js_plus t ?lt) cart)"
    and s: "list_all2 (snapshot_of prods) cart new"
    by blast
  have "snapshot_of prods c ?it" using p by (simp add: snapshot_of_def)
  with s have "list_all2 (snapshot_of prods) (c # cart) (?it # new)" by simp
  moreover have "build_lines prods (c # cart) a b t
        = Inr (a @ (?it # new), lines, foldl ?f t (c # cart))"
    using p ok r by (simp add: Let_def line_total_def)
  ultimately show ?case by blast
qed

lemma handleOrder_reach:
  assumes "reaches_cart_loop faults cart customer delivery w c d i"
  shows "handleOrder faults createSession cart customer delivery w =
           (case build_lines (products (db w)) cart [] [] (Num 0) of
              Inl msg \<Rightarrow> (response 400 (ErrorBody msg), after_reads cart i w)
            | Inr (orderItems, stripeLineItems, totalCents) \<Rightarrow>
                persist_order faults createSession c d i orderItems stripeLineItems totalCents
                  (after_reads cart i w))"
proof -
  from assms have v: "validate_order_fields cart customer delivery = Inr (c, d, i)"
    and f1: "faults (SelectDeliveryDate i) = None"
    and dd: "map dd_active (filter (\<lambda>r. dd_id r = i) (delivery_dates (db w))) = [True]"
    and f2: "faults (SelectProducts (map productId cart)) = None"
    by (simp_all add: reaches_cart_loop_def)
  from dd obtain r where r: "filter (\<lambda>r. dd_id r = i) (delivery_dates (db w)) = [r]" "dd_active r"
    by (cases "filter (\<lambda>r. dd_id r = i) (delivery_dates (db w))") auto
  have sd: "select_delivery_date faults i w = (Inr r, issue (SelectDeliveryDate i) w)"
    using f1 r by (simp add: select_delivery_date_def Let_def issue_def)
  have sp: "select_products faults (map productId cart) (issue (SelectDeliveryDate i) w)
            = (Inr (filter (\<lambda>p. p_id p \<in> set (map productId cart)) (products (db w))),
               after_reads cart i w)"
    using f2 by (simp add: select_products_def Let_def issue_def after_reads_def)
  have bl: "build_lines (filter (\<lambda>p. p_id p \<in> set (map productId cart)) (products (db w))) cart
              [] [] (Num 0)
            = build_lines (products (db w)) cart [] [] (Num 0)"
    by (rule build_lines_fetched) simp
  show ?thesis
    using v sd sp r(2) bl by (simp add: handleOrder_def split: sum.splits prod.splits)
qed

lemma build_lines_cart:
  assumes "list_all (valid_line prods) cart"
  shows "\<exists>items lines. build_lines prods cart [] [] (Num 0) = Inr (items, lines, cart_total prods cart)
                       \<and> list_all2 (snapshot_of prods) cart items"
proof -
  from build_lines_valid [OF assms, of "[]" "[]" "Num 0"] obtain new lines where
    "build_lines prods cart [] [] (Num 0)
       = Inr ([] @ new, lines,
              foldl (\<lambda>totalCents cartItem. js_plus totalCents (line_total prods cartItem))
                (Num 0) cart)"
    "list_all2 (snapshot_of prods) cart new" by blast
  then show ?thesis by (auto simp: cart_total_def)
qed

lemma handleOrder_persists:
  assumes "reaches_cart_loop faults cart customer delivery w c d i"
    and "list_all (valid_line (products (db w))) cart"
  shows "\<exists>items lines.
           list_all2 (snapshot_of (products (db w))) cart items
           \<and> handleOrder faults createSession cart customer delivery w
               = persist_order faults createSession c d i items lines
                   (cart_total (products (db w)) cart) (after_reads cart i w)"
proof -
  from build_lines_cart [OF assms(2)] obtain items lines where
    b: "build_lines (products (db w)) cart [] [] (Num 0)
          = Inr (items, lines, cart_total (products (db w)) cart)"
    and s: "list_all2 (snapshot_of (products (db w))) cart items" by blast
  from handleOrder_reach [OF assms(1), of createSession] b s show ?thesis by auto
qed

lemma after_reads_simps [simp]:
  "db (after_reads cart i w) = db w"
  "trace (after_reads cart i w) = trace w @ [SelectDeliveryDate i, SelectProducts (map productId cart)]"
  "console (after_reads cart i w) = console w"
  by (simp_all add: after_reads_def issue_def)

lemma filter_fresh: "filter (\<lambda>r. o_id r \<noteq> fresh_id (map o_id xs)) xs = xs"
proof -
  have "\<forall>r \<in> set xs. o_id r \<noteq> fresh_id (map o_id xs)"
    using fresh_id_notin [of "map o_id xs"] by (metis image_eqI set_map)
  then show ?thesis by simp
qed

lemma persist_order_rollback:
  assumes "faults (InsertOrder (order_header c d i tot)) = None"
    and "\<forall>rows. faults (InsertOrderItems rows) \<noteq> None"
  shows "statusCode (fst (persist_order faults createSession c d i items lines tot w)) = 500
         \<and> last (trace (snd (persist_order faults createSession c d i items lines tot w)))
             = DeleteOrder (next_order_id w)
         \<and> order_items (db (snd (persist_order faults createSession c d i items lines tot w)))
             = order_items (db w)
         \<and> (faults (DeleteOrder (next_order_id w)) = None \<longrightarrow>
              orders (db (snd (persist_order faults createSession c d i items lines tot w)))
                = orders (db w))"
proof -
  let ?rows = "map (\<lambda>item. order_item.extend item \<lparr>order_id = next_order_id w\<rparr>) items"
  from assms(2) obtain e where e: "faults (InsertOrderItems ?rows) = Some e" by auto
  show ?thesis
    using assms(1) e
    by (cases "faults (DeleteOrder (next_order_id w))")
       (simp_all add: persist_order_def insert_order_def insert_order_items_def delete_order_def
          issue_def say_def Let_def response_def next_order_id_def order_insert.defs filter_fresh)
qed

lemma next_order_id_after_reads [simp]: "next_order_id (after_reads cart i w) = next_order_id w"
  by (simp add: next_order_id_def)

lemma pay_order_keeps:
  "\<exists>g. (\<forall>r. o_id (g r) = o_id r \<and> total_amount_cents (g r) = total_amount_cents r)
       \<and> orders (db (snd (pay_order faults createSession c oid lines w))) = map g (orders (db w))
       \<and> order_items (db (snd (pay_order faults createSession c oid lines w)))
           = order_items (db w)"
proof (cases "createSession \<lparr>line_items = lines, metadata_id = oid, metadata_type = ''order'',
                              sr_customer_email = or_null (email c)\<rparr>")
  case (Inl err)
  show ?thesis
  proof (cases "faults (UpdateOrderPaymentStatus oid Failed)")
    case None
    with Inl show ?thesis
      by (intro exI [of _ "\<lambda>r. if o_id r = oid then r\<lparr>payment_status := Failed\<rparr> else r"])
         (simp add: pay_order_def update_order_payment_status_def issue_def say_def Let_def)
  next
    case (Some e)
    with Inl show ?thesis
      by (intro exI [of _ "\<lambda>r. r"])
         (simp add: pay_order_def update_order_payment_status_def issue_def say_def Let_def)
  qed
next
  case (Inr session)
  show ?thesis
  proof (cases "faults (UpdateOrderSession oid (session_id session))")
    case None
    with Inr show ?thesis
      by (intro exI [of _ "\<lambda>r. if o_id r = oid
                                 then r\<lparr>stripe_checkout_session_id := Some (session_id session)\<rparr>
                                 else r"])
         (simp add: pay_order_def update_order_session_def issue_def say_def Let_def)
  next
    case (Some e)
    with Inr show ?thesis
      by (intro exI [of _ "\<lambda>r. r"])
         (simp add: pay_order_def update_order_session_def issue_def say_def Let_def)
  qed
qed

lemma snapshot_of_extend:
  "snapshot_of prods cartItem (order_item.extend item ext) = snapshot_of prods cartItem item"
  by (simp add: snapshot_of_def order_item.defs split: option.splits)

lemma persist_order_inserted:
  assumes "faults (InsertOrder (order_header c d i tot)) = None"
    and "\<forall>rows. faults (InsertOrderItems rows) = None"
  shows "\<exists>w2. persist_order faults createSession c d i items lines tot w
                = pay_order faults createSession c (next_order_id w) lines w2
              \<and> orders (db w2)
                  = orders (db w) @
                    [order_insert.extend (order_header c d i tot)
                       \<lparr>o_id = next_order_id w, stripe_checkout_session_id = None,
                        stripe_payment_intent_id = None, updated_at = None\<rparr>]
              \<and> order_items (db w2)
                  = order_items (db w) @
                    map (\<lambda>item. order_item.extend item \<lparr>order_id = next_order_id w\<rparr>) items"
  using assms
  apply (simp add: persist_order_def insert_order_def insert_order_items_def
        issue_def Let_def next_order_id_def)
  apply (rule exI, rule conjI, rule refl)
  apply simp
  done


text \<open>
  In the safe range the loop computes the exact amounts: every price, every line total
  and every running total is an integer of magnitude below \<open>2 ^ 53\<close>.
\<close>

lemma whole_valid_line:
  assumes "whole_line c" and "valid_line prods c"
  shows "\<exists>p n. find (\<lambda>p. p_id p = productId c) prods = Some p
               \<and> to_number (qty c) = Num (of_int n) \<and> 0 < n
               \<and> exact_line prods c = of_int (unit_price_cents p * n)"
proof -
  from assms(1) obtain x where x: "to_number (qty c) = Num x" "x = of_int \<lfloor>x\<rfloor>"
    by (auto simp: whole_line_def split: number.splits)
  from assms(2) obtain p where p: "find (\<lambda>p. p_id p = productId c) prods = Some p"
    by (auto simp: valid_line_def split: option.splits)
  from assms(2) p x(1) have "0 < x" by (simp add: valid_line_def)
  with x(2) have "0 < \<lfloor>x\<rfloor>" by linarith
  moreover have "to_number (qty c) = Num (of_int \<lfloor>x\<rfloor>)" using x by simp
  moreover have "exact_line prods c = of_int (unit_price_cents p * \<lfloor>x\<rfloor>)"
    using p x by (simp add: exact_line_def)
  ultimately show ?thesis using p by blast
qed

lemma rat_of_int_safe: "\<bar>of_int n :: rat\<bar> < 2 ^ 53 \<longleftrightarrow> \<bar>n\<bar> < 2 ^ 53"
proof -
  have "\<bar>of_int n :: rat\<bar> = of_int \<bar>n\<bar>" by simp
  moreover have "(2 :: rat) ^ 53 = of_int (2 ^ 53)" by simp
  ultimately show ?thesis by (simp only: of_int_less_iff)
qed

lemma line_total_safe:
  assumes "whole_line c" and "valid_line prods c" and "\<bar>exact_line prods c\<bar> < 2 ^ 53"
    and "find (\<lambda>p. p_id p = productId c) prods = Some p"
  shows "from_int (unit_price_cents p) = Num (of_int (unit_price_cents p))"
    and "line_total prods c = Num (exact_line prods c)"
proof -
  from whole_valid_line [OF assms(1,2)] assms(4) obtain n where
    n: "to_number (qty c) = Num (of_int n)" "0 < n"
    and e: "exact_line prods c = of_int (unit_price_cents p * n)"
    by auto
  from assms(3) e have b: "\<bar>unit_price_cents p * n\<bar> < 2 ^ 53"
    by (simp only: rat_of_int_safe)
  have "\<bar>unit_price_cents p\<bar> * 1 \<le> \<bar>unit_price_cents p\<bar> * n"
    using n(2) by (intro mult_left_mono) simp_all
  also have "\<dots> = \<bar>unit_price_cents p * n\<bar>" using n(2) by (simp add: abs_mult)
  finally have "\<bar>unit_price_cents p\<bar> < 2 ^ 53" using b by simp
  then show f: "from_int (unit_price_cents p) = Num (of_int (unit_price_cents p))"
    by (rule from_int_safe)
  from round64_safe [OF b] show "line_total prods c = Num (exact_line prods c)"
    using assms(4) n(1) f e by (simp add: line_total_def)
qed

lemma cart_total_safe_from:
  assumes "list_all whole_line cart" and "list_all (valid_line prods) cart"
    and "safe_sums (of_int t) (map (exact_line prods) cart)"
  shows "foldl (\<lambda>totalCents cartItem. js_plus totalCents (line_total prods cartItem))
           (Num (of_int t)) cart
         = Num (of_int t + exact_total prods cart)"
  using assms
proof (induction cart arbitrary: t)
  case Nil
  then show ?case by (simp add: exact_total_def)
next
  case (Cons c cart)
  from Cons.prems have wc: "whole_line c" and vc: "valid_line prods c"
    and wr: "list_all whole_line cart" and vr: "list_all (valid_line prods) cart"
    and lb: "\<bar>exact_line prods c\<bar> < 2 ^ 53"
    and sb: "\<bar>of_int t + exact_line prods c\<bar> < 2 ^ 53"
    and sr: "safe_sums (of_int t + exact_line prods c) (map (exact_line prods) cart)"
    by simp_all
  from whole_valid_line [OF wc vc] obtain p n where
    p: "find (\<lambda>p. p_id p = productId c) prods = Some p"
    and e: "exact_line prods c = of_int (unit_price_cents p * n)" by blast
  let ?l = "unit_price_cents p * n"
  from line_total_safe(2) [OF wc vc lb p] e
  have lt: "line_total prods c = Num (of_int ?l)" by simp
  have sum: "(of_int t :: rat) + exact_line prods c = of_int (t + ?l)" using e by simp
  with sb have "\<bar>t + ?l\<bar> < 2 ^ 53" by (simp only: rat_of_int_safe)
  from round64_safe [OF this] lt
  have step: "js_plus (Num (of_int t)) (line_total prods c) = Num (of_int (t + ?l))" by simp
  from sr sum have "safe_sums (of_int (t + ?l)) (map (exact_line prods) cart)" by simp
  from Cons.IH [OF wr vr this] step sum show ?case
    by (simp add: exact_total_def add.assoc)
qed

lemma cart_total_safe:
  assumes "list_all (valid_line prods) cart" and "safe_range prods cart"
  shows "cart_total prods cart = Num (exact_total prods cart)"
  using cart_total_safe_from [of cart prods 0] assms by (simp add: safe_range_def cart_total_def)

lemma safe_sums_member: "safe_sums t xs \<Longrightarrow> x \<in> set xs \<Longrightarrow> \<bar>x\<bar> < 2 ^ 53"
  by (induction xs arbitrary: t) auto

lemma snapshot_exact:
  assumes "list_all (valid_line prods) cart" and "safe_range prods cart"
    and "list_all2 (snapshot_of prods) cart items"
  shows "list_all2 (exact_snapshot_of prods) cart items"
proof -
  have "exact_snapshot_of prods c item"
    if "c \<in> set cart" and s: "snapshot_of prods c item" for c item
  proof -
    from assms(1,2) that(1) have w: "whole_line c" and v: "valid_line prods c"
      by (simp_all add: safe_range_def list_all_iff)
    from assms(2) that(1) have b: "\<bar>exact_line prods c\<bar> < 2 ^ 53"
      by (intro safe_sums_member [of 0 "map (exact_line prods) cart"])
         (simp_all add: safe_range_def)
    from s obtain p where p: "find (\<lambda>p. p_id p = productId c) prods = Some p"
      by (auto simp: snapshot_of_def split: option.splits)
    from line_total_safe [OF w v b p] s p show ?thesis
      by (simp add: exact_snapshot_of_def snapshot_of_def line_total_def)
  qed
  with assms(3) show ?thesis
    by (metis (mono_tags, lifting) list_all2_mono list.rel_mono_strong)
qed

text \<open>
  A cart of whole units at prices that are not negative is within the safe range as soon
  as its exact total is below \<open>2 ^ 53\<close>.
\<close>

lemma safe_sums_nonneg:
  "0 \<le> t \<Longrightarrow> list_all (\<lambda>x. 0 \<le> x) xs \<Longrightarrow> t + sum_list xs < 2 ^ 53 \<Longrightarrow> safe_sums t xs"
proof (induction xs arbitrary: t)
  case Nil
  then show ?case by simp
next
  case (Cons x xs)
  from Cons.prems have x: "0 \<le> x" and r: "list_all (\<lambda>x. 0 \<le> x) xs" by simp_all
  then have s: "0 \<le> sum_list xs" by (simp add: sum_list_nonneg list_all_iff)
  from Cons.prems(3) have b: "(t + x) + sum_list xs < 2 ^ 53" by (simp add: add.assoc)
  from Cons.prems(1) x have p: "0 \<le> t + x" by simp
  from Cons.IH [OF p r b] have "safe_sums (t + x) xs" .
  moreover from b s Cons.prems(1) x have "\<bar>x\<bar> < 2 ^ 53" "\<bar>t + x\<bar> < 2 ^ 53" by linarith+
  ultimately show ?case by simp
qed

lemma safe_range_nonneg:
  assumes "list_all whole_line cart" and "list_all (valid_line prods) cart"
    and "\<forall>p \<in> set prods. 0 \<le> unit_price_cents p"
    and "exact_total prods cart < 2 ^ 53"
  shows "safe_range prods cart"
proof -
  have "0 \<le> exact_line prods c" if "c \<in> set cart" for c
  proof -
    from assms(1,2) that have "whole_line c" "valid_line prods c" by (simp_all add: list_all_iff)
    from whole_valid_line [OF this] obtain p n where
      p: "find (\<lambda>p. p_id p = productId c) prods = Some p" and n: "0 < n"
      and e: "exact_line prods c = of_int (unit_price_cents p * n)" by blast
    from p have "p \<in> set prods" by (auto simp: find_Some_iff)
    with assms(3) have "0 \<le> unit_price_cents p" by simp
    with n e show ?thesis by simp
  qed
  then have "list_all (\<lambda>x. 0 \<le> x) (map (exact_line prods) cart)"
    by (simp add: list_all_iff)
  from safe_sums_nonneg [OF _ this] assms(1,4) show ?thesis
    by (simp add: safe_range_def exact_total_def)
qed

text \<open>Unfolding sets for evaluating the checkout functions on the example data.\<close>

lemmas checkout_defs =
  handleOrder_def persist_order_def pay_order_def validate_order_fields_def
  select_delivery_date_def select_products_def insert_order_def insert_order_items_def
  delete_order_def update_order_payment_status_def update_order_session_def
  order_header_def or_null_def issue_def say_def fresh_id_def response_def
  order_insert.defs order_item.defs number_simps

lemmas example_defs =
  shop_world_def shop_def alice_def to_church_def gift_def stripe_up_def stripe_down_def
  no_faults_def datastore_down_def down_after_header_def items_rejected_def
  updates_rejected_def two_of_p1_def two_of_p1_client_price_def twice_three_of_p1_def
  with_inactive_def priced_high_def three_of_p1_def

lemma exact_snapshot_of_extend:
  "exact_snapshot_of prods cartItem (order_item.extend item ext)
   = exact_snapshot_of prods cartItem item"
  by (simp add: exact_snapshot_of_def snapshot_of_def order_item.defs split: option.splits)

subsection \<open>The order total\<close>

text \<open>
  Claim C1, as written, fails: the loop multiplies and adds JavaScript numbers, which
  are binary floating-point values, not integers, and the datastore's prices are not
  bounded. For a valid cart of three units of a product priced 9007199254740991 cents,
  the exact total is 27021597764222973 cents; the order is created, the response is 200,
  and the stored \<^verbatim>\<open>line_total_cents\<close> and \<^verbatim>\<open>total_amount_cents\<close> are 27021597764222972, the
  nearest value a JavaScript number can hold.
\<close>

theorem handleOrder_total_counterexample:
  "map unit_price_cents (products (db priced_high)) = [9007199254740991]
   \<and> map stock_qty (products (db priced_high)) = [5]
   \<and> map p_active (products (db priced_high)) = [True]
   \<and> map p_id (products (db priced_high)) = [1]
   \<and> map productId three_of_p1 = [1]
   \<and> map to_number (map qty three_of_p1) = [Num 3]
   \<and> list_all (valid_line (products (db priced_high))) three_of_p1
   \<and> exact_total (products (db priced_high)) three_of_p1 = 27021597764222973
   \<and> fst (handleOrder no_faults stripe_up three_of_p1 (Some alice) (Some to_church) priced_high)
       = response 200 (OrderCreated ''https://checkout.stripe.com/c/pay/cs_test_1'' 1)
   \<and> map unit_price_cents_snapshot
        (order_items (db (snd (handleOrder no_faults stripe_up three_of_p1
                                 (Some alice) (Some to_church) priced_high))))
       = [Num 9007199254740991]
   \<and> map line_total_cents
        (order_items (db (snd (handleOrder no_faults stripe_up three_of_p1
                                 (Some alice) (Some to_church) priced_high))))
       = [Num 27021597764222972]
   \<and> map total_amount_cents
        (orders (db (snd (handleOrder no_faults stripe_up three_of_p1
                            (Some alice) (Some to_church) priced_high))))
       = [Num 27021597764222972]
   \<and> map total_amount_cents
        (orders (db (snd (handleOrder no_faults stripe_up three_of_p1
                            (Some alice) (Some to_church) priced_high))))
       \<noteq> [Num (exact_total (products (db priced_high)) three_of_p1)]"
proof -
  have r: "round64 27021597764222973 = Num 27021597764222972"
    "round64 27021597764222972 = Num 27021597764222972"
    by code_simp+
  show ?thesis
    by (simp add: checkout_defs example_defs Let_def r valid_line_def
          exact_total_def exact_line_def)
qed

text \<open>
  Claim C1, amended. For a valid cart (each line's product exists, is active, has enough
  stock, and the quantity is positive) within the safe range (every quantity is an
  integer, and every line total and every running total is of magnitude below \<open>2 ^ 53\<close>
  cents), in a request that reaches the cart loop and whose two inserts the datastore
  accepts,
  \<^verbatim>\<open>handleOrder\<close> inserts an order whose \<^verbatim>\<open>total_amount_cents\<close> is exactly the sum over the
  cart lines of the datastore product's \<^verbatim>\<open>unit_price_cents\<close> times the line's \<^verbatim>\<open>qty\<close>, and
  one item per cart line, each a snapshot of the datastore's product whose
  \<^verbatim>\<open>unit_price_cents_snapshot\<close> is the datastore's price and whose \<^verbatim>\<open>line_total_cents\<close> is
  exactly that price times \<^verbatim>\<open>qty\<close>. The cart's type leaves open whatever else the client
  sends on a line: nothing of it enters the order.
\<close>

theorem handleOrder_total:
  assumes "reaches_cart_loop faults cart customer delivery w c d i"
    and "list_all (valid_line (products (db w))) cart"
    and "safe_range (products (db w)) cart"
    and "faults (InsertOrder (order_header c d i (Num (exact_total (products (db w)) cart))))
         = None"
    and "\<forall>rows. faults (InsertOrderItems rows) = None"
  shows "\<exists>r rows.
           r \<in> set (orders (db (snd (handleOrder faults createSession cart customer delivery w))))
           \<and> o_id r = next_order_id w
           \<and> order_items (db (snd (handleOrder faults createSession cart customer delivery w)))
               = order_items (db w) @ rows
           \<and> list_all2 (exact_snapshot_of (products (db w))) cart rows
           \<and> list_all (\<lambda>x. order_id x = o_id r) rows
           \<and> total_amount_cents r = Num (exact_total (products (db w)) cart)"
proof -
  let ?tot = "Num (exact_total (products (db w)) cart)"
  let ?w = "after_reads cart i w"
  have ct: "cart_total (products (db w)) cart = ?tot"
    by (rule cart_total_safe [OF assms(2,3)])
  from handleOrder_persists [OF assms(1,2), of createSession] ct obtain items lines where
    s: "list_all2 (snapshot_of (products (db w))) cart items"
    and h: "handleOrder faults createSession cart customer delivery w
              = persist_order faults createSession c d i items lines ?tot ?w" by auto
  let ?rows = "map (\<lambda>item. order_item.extend item \<lparr>order_id = next_order_id w\<rparr>) items"
  let ?r0 = "order_insert.extend (order_header c d i ?tot)
               \<lparr>o_id = next_order_id w, stripe_checkout_session_id = None,
                stripe_payment_intent_id = None, updated_at = None\<rparr>"
  from persist_order_inserted [OF assms(4,5), of createSession items lines ?w] obtain w2 where
    p: "persist_order faults createSession c d i items lines ?tot ?w
          = pay_order faults createSession c (next_order_id w) lines w2"
    and o: "orders (db w2) = orders (db w) @ [?r0]"
    and it: "order_items (db w2) = order_items (db w) @ ?rows" by auto
  from pay_order_keeps [of faults createSession c "next_order_id w" lines w2] obtain g where
    g: "\<forall>r. o_id (g r) = o_id r \<and> total_amount_cents (g r) = total_amount_cents r"
    and go: "orders (db (snd (pay_order faults createSession c (next_order_id w) lines w2)))
               = map g (orders (db w2))"
    and gi: "order_items (db (snd (pay_order faults createSession c (next_order_id w) lines w2)))
               = order_items (db w2)" by blast
  have r0: "o_id ?r0 = next_order_id w" "total_amount_cents ?r0 = ?tot"
    by (simp_all add: order_insert.defs order_header_def)
  have rows: "list_all2 (exact_snapshot_of (products (db w))) cart ?rows"
  proof -
    have "list_all2 (\<lambda>x y. exact_snapshot_of (products (db w)) x
                      (order_item.extend y \<lparr>order_id = next_order_id w\<rparr>)) cart items"
      using snapshot_exact [OF assms(2,3) s]
      by (rule list_all2_mono) (simp add: exact_snapshot_of_extend)
    then show ?thesis by (simp add: list_all2_map2)
  qed
  have own: "list_all (\<lambda>x. order_id x = next_order_id w) ?rows"
    by (simp add: list_all_iff order_item.defs)
  have "g ?r0 \<in> set (orders (db (snd (handleOrder faults createSession cart customer delivery w))))"
    using h p go o by simp
  moreover have "o_id (g ?r0) = next_order_id w" "total_amount_cents (g ?r0) = ?tot"
    using g r0 by simp_all
  moreover have "order_items (db (snd (handleOrder faults createSession cart customer delivery w)))
                   = order_items (db w) @ ?rows"
    using h p gi it by simp
  ultimately show ?thesis using rows own by (intro exI [of _ "g ?r0"] exI [of _ ?rows]) simp
qed

theorem handleOrder_total_witness:
  "reaches_cart_loop no_faults two_of_p1_client_price (Some alice) (Some to_church) shop_world
     alice to_church 1
   \<and> list_all (valid_line (products (db shop_world))) two_of_p1_client_price
   \<and> safe_range (products (db shop_world)) two_of_p1_client_price
   \<and> exact_total (products (db shop_world)) two_of_p1_client_price = 3000
   \<and> (\<exists>r rows.
          r \<in> set (orders (db (snd (handleOrder no_faults stripe_up two_of_p1_client_price
                                      (Some alice) (Some to_church) shop_world))))
          \<and> o_id r = 1
          \<and> order_items (db (snd (handleOrder no_faults stripe_up two_of_p1_client_price
                                     (Some alice) (Some to_church) shop_world))) = rows
          \<and> list_all2 (exact_snapshot_of (products (db shop_world))) two_of_p1_client_price rows
          \<and> list_all (\<lambda>x. order_id x = o_id r) rows
          \<and> total_amount_cents r = Num 3000)"
proof -
  have a: "reaches_cart_loop no_faults two_of_p1_client_price (Some alice) (Some to_church)
             shop_world alice to_church 1"
    by (simp add: reaches_cart_loop_def validate_order_fields_def example_defs)
  have b: "list_all (valid_line (products (db shop_world))) two_of_p1_client_price"
    by (simp add: valid_line_def example_defs number_simps)
  have e: "exact_total (products (db shop_world)) two_of_p1_client_price = 3000"
    by (simp add: exact_total_def exact_line_def example_defs number_simps)
  have s: "safe_range (products (db shop_world)) two_of_p1_client_price"
    by (simp add: safe_range_def whole_line_def exact_line_def example_defs number_simps)
  have c: "no_faults (InsertOrder (order_header alice to_church 1
             (Num (exact_total (products (db shop_world)) two_of_p1_client_price)))) = None"
    by (simp add: no_faults_def)
  have d: "\<forall>rows. no_faults (InsertOrderItems rows) = None"
    by (simp add: no_faults_def)
  have f: "next_order_id shop_world = 1" "order_items (db shop_world) = []"
    by (simp_all add: next_order_id_def fresh_id_def example_defs)
  show ?thesis
    using handleOrder_total [OF a b s c d, of stripe_up] a b s e f by simp
qed

subsection \<open>Compensation after a failed items insert\<close>

text \<open>
  Claim C2, as written, fails: the compensating delete is itself a datastore call whose
  result \<^verbatim>\<open>handleOrder\<close> does not look at. When the datastore accepts the header and then
  answers neither the items insert nor the delete, the 500 response is returned and the
  header, with no items, is still in \<^verbatim>\<open>orders\<close>.
\<close>

theorem handleOrder_rollback_counterexample:
  "down_after_header (InsertOrder (order_header alice to_church 1 (Num 3000))) = None
   \<and> down_after_header (InsertOrderItems []) = Some ''fetch failed''
   \<and> statusCode (fst (handleOrder down_after_header stripe_up two_of_p1
                         (Some alice) (Some to_church) shop_world)) = 500
   \<and> map o_id (orders (db (snd (handleOrder down_after_header stripe_up two_of_p1
                                   (Some alice) (Some to_church) shop_world)))) = [1]
   \<and> order_items (db (snd (handleOrder down_after_header stripe_up two_of_p1
                              (Some alice) (Some to_church) shop_world))) = []"
  by (simp add: checkout_defs example_defs Let_def)

text \<open>
  Claim C2, amended. If the order-header insert succeeds and the \<^verbatim>\<open>order_items\<close> insert
  fails, \<^verbatim>\<open>handleOrder\<close> returns 500 after issuing, as its last datastore call, the delete
  of the header it has just created; no item is stored; and when the datastore carries
  that delete out, \<^verbatim>\<open>orders\<close> is what it was before the request, so no header without
  items remains. (The outcome of the delete is not checked.)
\<close>

theorem handleOrder_rollback:
  assumes "reaches_cart_loop faults cart customer delivery w c d i"
    and "list_all (valid_line (products (db w))) cart"
    and "faults (InsertOrder (order_header c d i (cart_total (products (db w)) cart))) = None"
    and "\<forall>rows. faults (InsertOrderItems rows) \<noteq> None"
  shows "statusCode (fst (handleOrder faults createSession cart customer delivery w)) = 500
         \<and> last (trace (snd (handleOrder faults createSession cart customer delivery w)))
             = DeleteOrder (next_order_id w)
         \<and> order_items (db (snd (handleOrder faults createSession cart customer delivery w)))
             = order_items (db w)
         \<and> (faults (DeleteOrder (next_order_id w)) = None \<longrightarrow>
              orders (db (snd (handleOrder faults createSession cart customer delivery w)))
                = orders (db w))"
proof -
  from handleOrder_persists [OF assms(1,2), of createSession] obtain items lines where
    h: "handleOrder faults createSession cart customer delivery w
          = persist_order faults createSession c d i items lines
              (cart_total (products (db w)) cart) (after_reads cart i w)" by blast
  from persist_order_rollback [OF assms(3,4), of createSession items lines "after_reads cart i w"]
  show ?thesis by (simp add: h)
qed

theorem handleOrder_rollback_witness:
  "reaches_cart_loop items_rejected two_of_p1 (Some alice) (Some to_church) shop_world
     alice to_church 1
   \<and> list_all (valid_line (products (db shop_world))) two_of_p1
   \<and> items_rejected (InsertOrder (order_header alice to_church 1 (Num 3000))) = None
   \<and> (\<forall>rows. items_rejected (InsertOrderItems rows) \<noteq> None)
   \<and> items_rejected (DeleteOrder 1) = None
   \<and> statusCode (fst (handleOrder items_rejected stripe_up two_of_p1
                         (Some alice) (Some to_church) shop_world)) = 500
   \<and> last (trace (snd (handleOrder items_rejected stripe_up two_of_p1
                          (Some alice) (Some to_church) shop_world))) = DeleteOrder 1
   \<and> order_items (db (snd (handleOrder items_rejected stripe_up two_of_p1
                              (Some alice) (Some to_church) shop_world))) = []
   \<and> orders (db (snd (handleOrder items_rejected stripe_up two_of_p1
                         (Some alice) (Some to_church) shop_world))) = []"
proof -
  have a: "reaches_cart_loop items_rejected two_of_p1 (Some alice) (Some to_church)
             shop_world alice to_church 1"
    by (simp add: reaches_cart_loop_def validate_order_fields_def example_defs)
  have b: "list_all (valid_line (products (db shop_world))) two_of_p1"
    by (simp add: valid_line_def example_defs number_simps)
  have e: "cart_total (products (db shop_world)) two_of_p1 = Num 3000"
    by (simp add: cart_total_def line_total_def example_defs number_simps)
  have c: "items_rejected (InsertOrder (order_header alice to_church 1
             (cart_total (products (db shop_world)) two_of_p1))) = None"
    by (simp add: items_rejected_def)
  have d: "\<forall>rows. items_rejected (InsertOrderItems rows) \<noteq> None"
    by (simp add: items_rejected_def)
  have f: "next_order_id shop_world = 1" "order_items (db shop_world) = []"
    "orders (db shop_world) = []" "items_rejected (DeleteOrder 1) = None"
    by (simp_all add: next_order_id_def fresh_id_def example_defs)
  show ?thesis
    using handleOrder_rollback [OF a b c d, of stripe_up] a b c d e f by simp
qed

subsection \<open>Stock is checked line by line\<close>

text \<open>
  Claim C9. Stock validation is per cart line, each line against the same fetched
  \<^verbatim>\<open>stock_qty\<close>: a cart with two lines for product P1 (five in stock), three units each,
  passes validation although six units are asked for, and the order is created with
  both lines.
\<close>

theorem handleOrder_duplicate_lines:
  "map stock_qty (filter (\<lambda>p. p_id p = 1) (products (db shop_world))) = [5]
   \<and> map productId twice_three_of_p1 = [1, 1]
   \<and> map qty twice_three_of_p1 = [whole 3, whole 3]
   \<and> fst (handleOrder no_faults stripe_up twice_three_of_p1
             (Some alice) (Some to_church) shop_world)
       = response 200 (OrderCreated ''https://checkout.stripe.com/c/pay/cs_test_1'' 1)
   \<and> map total_amount_cents
        (orders (db (snd (handleOrder no_faults stripe_up twice_three_of_p1
                            (Some alice) (Some to_church) shop_world)))) = [Num 9000]
   \<and> map (\<lambda>x. (product_id x, oi_qty x, order_id x))
        (order_items (db (snd (handleOrder no_faults stripe_up twice_three_of_p1
                                 (Some alice) (Some to_church) shop_world))))
       = [(1, whole 3, 1), (1, whole 3, 1)]"
  by (simp add: checkout_defs example_defs Let_def)

subsection \<open>Rejected carts\<close>

lemma valid_line_rejection: "valid_line prods c \<longleftrightarrow> rejection_of prods c = None"
  by (auto simp: valid_line_def rejection_of_def split: option.splits)

lemma build_lines_head_rejected:
  assumes "\<not> valid_line prods c"
  shows "\<exists>msg. build_lines prods (c # cart) a b t = Inl msg
               \<and> message_kind msg = rejection_of prods c"
proof (cases "find (\<lambda>p. p_id p = productId c) prods")
  case None
  then show ?thesis by (simp add: rejection_of_def message_kind_def)
next
  case (Some p)
  consider "\<not> p_active p"
    | "p_active p" "js_less (from_int (stock_qty p)) (to_number (qty c))"
    | "p_active p" "\<not> js_less (from_int (stock_qty p)) (to_number (qty c))"
      "js_le (to_number (qty c)) (Num 0)"
    using assms Some by atomize_elim (auto simp: valid_line_def)
  then show ?thesis
  proof cases
    case 1
    with Some show ?thesis by (simp add: rejection_of_def message_kind_def)
  next
    case 2
    with Some show ?thesis
      by (simp add: rejection_of_def message_kind_def)
  next
    case 3
    with Some show ?thesis by (simp add: rejection_of_def message_kind_def e_acute_def)
  qed
qed

lemma build_lines_rejects:
  "find (\<lambda>c. \<not> valid_line prods c) cart = Some bad \<Longrightarrow>
   \<exists>msg. build_lines prods cart a b t = Inl msg \<and> message_kind msg = rejection_of prods bad"
proof (induction cart arbitrary: a b t)
  case Nil
  then show ?case by simp
next
  case (Cons c cart)
  show ?case
  proof (cases "valid_line prods c")
    case True
    with Cons.prems have "find (\<lambda>c. \<not> valid_line prods c) cart = Some bad" by simp
    from Cons.IH [OF this] True show ?thesis
      by (auto simp: valid_line_def Let_def split: option.splits)
  next
    case False
    with Cons.prems have "bad = c" by simp
    with build_lines_head_rejected [OF False] show ?thesis by simp
  qed
qed

lemma select_delivery_date_world:
  "snd (select_delivery_date faults i w) = issue (SelectDeliveryDate i) w"
  by (simp add: select_delivery_date_def Let_def split: option.splits list.splits)

lemma select_products_world:
  "snd (select_products faults ids w) = issue (SelectProducts ids) w"
  by (simp add: select_products_def Let_def split: option.splits)

lemma select_products_rows:
  "fst (select_products faults ids w) = Inr prods \<Longrightarrow>
   prods = filter (\<lambda>p. p_id p \<in> set ids) (products (db w))"
  by (simp add: select_products_def Let_def issue_def split: option.splits)

lemma handleOrder_invalid_reads_only:
  assumes "\<not> list_all (valid_line (products (db w))) cart"
  shows "db (snd (handleOrder faults createSession cart customer delivery w)) = db w
         \<and> list_all is_read
             (calls_of w (snd (handleOrder faults createSession cart customer delivery w)))"
proof (cases "validate_order_fields cart customer delivery")
  case (Inl msg)
  then show ?thesis by (simp add: handleOrder_def calls_of_def)
next
  case (Inr v)
  obtain c d i where v: "v = (c, d, i)" by (cases v)
  obtain r1 w1 where s1: "select_delivery_date faults i w = (r1, w1)" by fastforce
  with select_delivery_date_world [of faults i w]
  have w1: "w1 = issue (SelectDeliveryDate i) w" by simp
  obtain r2 w2 where s2: "select_products faults (map productId cart) w1 = (r2, w2)"
    by fastforce
  with select_products_world [of faults "map productId cart" w1]
  have w2: "w2 = issue (SelectProducts (map productId cart)) w1" by simp
  have rd: "db w1 = db w" "db w2 = db w"
    "list_all is_read (calls_of w w)"
    "list_all is_read (calls_of w w1)" "list_all is_read (calls_of w w2)"
    by (simp_all add: w1 w2 issue_def calls_of_def is_read_def)
  have bad: "\<And>prods. r2 = Inr prods \<Longrightarrow> \<exists>msg. build_lines prods cart [] [] (Num 0) = Inl msg"
  proof -
    fix prods assume "r2 = Inr prods"
    with s2 select_products_rows [of faults "map productId cart" w1 prods]
    have "prods = filter (\<lambda>p. p_id p \<in> set (map productId cart)) (products (db w))"
      by (simp add: rd)
    then have "build_lines prods cart [] [] (Num 0) = build_lines (products (db w)) cart [] [] (Num 0)"
      by (simp only: build_lines_fetched [OF subset_refl])
    with build_lines_invalid [OF assms, of "[]" "[]" "Num 0"]
    show "\<exists>msg. build_lines prods cart [] [] (Num 0) = Inl msg" by simp
  qed
  show ?thesis
  proof (cases r1)
    case (Inl e)
    with Inr v s1 rd show ?thesis by (simp add: handleOrder_def)
  next
    case dd: (Inr deliveryDate)
    show ?thesis
    proof (cases r2)
      case (Inl e)
      with Inr v s1 s2 dd rd show ?thesis by (simp add: handleOrder_def)
    next
      case pr: (Inr prods)
      from bad [OF pr] obtain msg where "build_lines prods cart [] [] (Num 0) = Inl msg" by blast
      with Inr v s1 s2 dd pr rd show ?thesis by (simp add: handleOrder_def)
    qed
  qed
qed


text \<open>
  Claim C5. When the cart contains a line whose product does not exist, or is not active,
  or whose \<^verbatim>\<open>qty\<close> exceeds the product's \<^verbatim>\<open>stock_qty\<close>, or whose \<^verbatim>\<open>qty\<close> is not
  positive, \<^verbatim>\<open>handleOrder\<close> persists nothing: the tables are unchanged and the only
  datastore calls it makes are reads, whatever the rest of the request and whatever the
  datastore answers. When the request reaches the cart loop, the response is 400 with the
  message of the first refused line, and the message tells the failure kind.
\<close>

theorem handleOrder_rejects_invalid_cart:
  assumes "\<not> list_all (valid_line (products (db w))) cart"
  shows "db (snd (handleOrder faults createSession cart customer delivery w)) = db w
         \<and> list_all is_read
             (calls_of w (snd (handleOrder faults createSession cart customer delivery w)))
         \<and> (reaches_cart_loop faults cart customer delivery w c d i \<longrightarrow>
              (\<exists>bad msg.
                 find (\<lambda>x. \<not> valid_line (products (db w)) x) cart = Some bad
                 \<and> fst (handleOrder faults createSession cart customer delivery w)
                     = response 400 (ErrorBody msg)
                 \<and> message_kind msg = rejection_of (products (db w)) bad
                 \<and> rejection_of (products (db w)) bad \<noteq> None))"
proof -
  from assms obtain bad where
    bad: "find (\<lambda>x. \<not> valid_line (products (db w)) x) cart = Some bad"
    by (cases "find (\<lambda>x. \<not> valid_line (products (db w)) x) cart")
       (auto simp: find_None_iff list_all_iff)
  then have nv: "\<not> valid_line (products (db w)) bad"
    by (auto simp: find_Some_iff)
  from build_lines_rejects [OF bad, of "[]" "[]" "Num 0"] obtain msg where
    msg: "build_lines (products (db w)) cart [] [] (Num 0) = Inl msg"
      "message_kind msg = rejection_of (products (db w)) bad" by blast
  have "reaches_cart_loop faults cart customer delivery w c d i \<Longrightarrow>
        fst (handleOrder faults createSession cart customer delivery w)
          = response 400 (ErrorBody msg)"
    using handleOrder_reach [of faults cart customer delivery w c d i createSession] msg(1)
    by simp
  with bad msg(2) nv handleOrder_invalid_reads_only [OF assms, of faults createSession customer delivery]
  show ?thesis by (auto simp: valid_line_rejection)
qed

theorem handleOrder_rejects_invalid_cart_witness:
  "\<not> list_all (valid_line (products (db shop_world))) with_inactive
   \<and> reaches_cart_loop no_faults with_inactive (Some alice) (Some to_church) shop_world
       alice to_church 1
   \<and> fst (handleOrder no_faults stripe_up with_inactive (Some alice) (Some to_church) shop_world)
       = response 400 (ErrorBody ''Produit non disponible : Kafe'')
   \<and> message_kind ''Produit non disponible : Kafe'' = Some InactiveProduct
   \<and> db (snd (handleOrder no_faults stripe_up with_inactive (Some alice) (Some to_church)
                 shop_world)) = shop
   \<and> list_all is_read
       (calls_of shop_world
          (snd (handleOrder no_faults stripe_up with_inactive (Some alice) (Some to_church)
                  shop_world)))"
proof -
  have a: "\<not> list_all (valid_line (products (db shop_world))) with_inactive"
    by (simp add: valid_line_def example_defs number_simps)
  have b: "reaches_cart_loop no_faults with_inactive (Some alice) (Some to_church) shop_world
             alice to_church 1"
    by (simp add: reaches_cart_loop_def validate_order_fields_def example_defs)
  have c: "fst (handleOrder no_faults stripe_up with_inactive (Some alice) (Some to_church)
                  shop_world)
           = response 400 (ErrorBody ''Produit non disponible : Kafe'')"
    by (simp add: checkout_defs example_defs Let_def)
  have d: "message_kind ''Produit non disponible : Kafe'' = Some InactiveProduct"
    by (simp add: message_kind_def)
  show ?thesis
    using handleOrder_rejects_invalid_cart
            [OF a, of no_faults stripe_up "Some alice" "Some to_church" alice to_church 1]
          a b c d
    by (simp add: shop_world_def)
qed

subsection \<open>After the payment session\<close>

lemma fresh_order_id_new:
  assumes "r \<in> set (orders (db w))"
  shows "o_id r \<noteq> next_order_id w"
proof
  assume e: "o_id r = next_order_id w"
  from assms have "o_id r \<in> set (map o_id (orders (db w)))" by simp
  with e have "fresh_id (map o_id (orders (db w))) \<in> set (map o_id (orders (db w)))"
    by (simp only: next_order_id_def)
  with fresh_id_notin show False by blast
qed

lemma fresh_donation_id_new:
  assumes "r \<in> set (donations (db w))"
  shows "don_id r \<noteq> next_donation_id w"
proof
  assume e: "don_id r = next_donation_id w"
  from assms have "don_id r \<in> set (map don_id (donations (db w)))" by simp
  with e have "fresh_id (map don_id (donations (db w))) \<in> set (map don_id (donations (db w)))"
    by (simp only: next_donation_id_def)
  with fresh_id_notin show False by blast
qed

lemma filter_fresh_donation: "filter (\<lambda>r. don_id r \<noteq> next_donation_id w) (donations (db w)) = donations (db w)"
  using fresh_donation_id_new [of _ w] by simp

lemma pay_order_session_unstored:
  assumes "\<forall>req. createSession req = Inr session"
    and "faults (UpdateOrderSession oid (session_id session)) \<noteq> None"
  shows "pay_order faults createSession c oid lines w
           = (response 200 (OrderCreated (url session) oid),
              issue (UpdateOrderSession oid (session_id session)) w)"
proof -
  from assms(2) obtain e where "faults (UpdateOrderSession oid (session_id session)) = Some e"
    by auto
  with assms(1) show ?thesis
    by (simp add: pay_order_def update_order_session_def Let_def)
qed

lemma update_order_payment_status_trace:
  "trace (snd (update_order_payment_status faults i s w))
     = trace w @ [UpdateOrderPaymentStatus i s]"
  by (simp add: update_order_payment_status_def Let_def issue_def split: option.splits)

lemma update_order_payment_status_items:
  "order_items (db (snd (update_order_payment_status faults i s w))) = order_items (db w)"
  by (simp add: update_order_payment_status_def Let_def issue_def split: option.splits)

lemma update_order_payment_status_ids:
  "map o_id (orders (db (snd (update_order_payment_status faults i s w))))
     = map o_id (orders (db w))"
  by (simp add: update_order_payment_status_def Let_def issue_def o_def split: option.splits)

lemma update_order_payment_status_done:
  assumes "faults (UpdateOrderPaymentStatus i s) = None"
    and "r \<in> set (orders (db (snd (update_order_payment_status faults i s w))))"
    and "o_id r = i"
  shows "payment_status r = s"
proof -
  from assms(1) have
    "orders (db (snd (update_order_payment_status faults i s w)))
       = map (\<lambda>r. if o_id r = i then r\<lparr>payment_status := s\<rparr> else r) (orders (db w))"
    by (simp add: update_order_payment_status_def Let_def issue_def)
  with assms(2) have
    "r \<in> (\<lambda>r. if o_id r = i then r\<lparr>payment_status := s\<rparr> else r) ` set (orders (db w))"
    by simp
  then obtain r0 where "r = (if o_id r0 = i then r0\<lparr>payment_status := s\<rparr> else r0)"
    by (rule imageE)
  with assms(3) show ?thesis by (cases "o_id r0 = i") simp_all
qed

lemma pay_order_stripe_failed_eq:
  assumes "\<forall>req. createSession req = Inl err"
  shows "pay_order faults createSession c oid lines w
           = (response 500
                (ErrorBody (''Erreur lors de la cr'' @ e_acute @ ''ation du paiement Stripe'')),
              snd (update_order_payment_status faults oid Failed
                     (say (ConsoleError ''Erreur Stripe:'' err) w)))"
  using assms by (simp add: pay_order_def Let_def)

lemma pay_order_stripe_failed:
  assumes "\<forall>req. createSession req = Inl err"
  shows "statusCode (fst (pay_order faults createSession c oid lines w)) = 500"
    and "last (trace (snd (pay_order faults createSession c oid lines w)))
           = UpdateOrderPaymentStatus oid Failed"
    and "order_items (db (snd (pay_order faults createSession c oid lines w)))
           = order_items (db w)"
    and "map o_id (orders (db (snd (pay_order faults createSession c oid lines w))))
           = map o_id (orders (db w))"
    and "faults (UpdateOrderPaymentStatus oid Failed) = None \<Longrightarrow>
         r \<in> set (orders (db (snd (pay_order faults createSession c oid lines w)))) \<Longrightarrow>
         o_id r = oid \<Longrightarrow> payment_status r = Failed"
proof -
  note e = pay_order_stripe_failed_eq [OF assms, of faults c oid lines w]
  show "statusCode (fst (pay_order faults createSession c oid lines w)) = 500"
    by (simp add: e response_def)
  show "last (trace (snd (pay_order faults createSession c oid lines w)))
           = UpdateOrderPaymentStatus oid Failed"
    by (simp add: e update_order_payment_status_trace)
  show "order_items (db (snd (pay_order faults createSession c oid lines w)))
           = order_items (db w)"
    by (simp add: e update_order_payment_status_items say_def)
  show "map o_id (orders (db (snd (pay_order faults createSession c oid lines w))))
           = map o_id (orders (db w))"
    by (simp add: e update_order_payment_status_ids say_def)
  show "faults (UpdateOrderPaymentStatus oid Failed) = None \<Longrightarrow>
         r \<in> set (orders (db (snd (pay_order faults createSession c oid lines w)))) \<Longrightarrow>
         o_id r = oid \<Longrightarrow> payment_status r = Failed"
    using update_order_payment_status_done
            [of faults oid Failed r "say (ConsoleError ''Erreur Stripe:'' err) w"]
    by (simp add: e)
qed

lemma handleOrder_pays:
  assumes "reaches_cart_loop faults cart customer delivery w c d i"
    and "list_all (valid_line (products (db w))) cart"
    and "faults (InsertOrder (order_header c d i (cart_total (products (db w)) cart))) = None"
    and "\<forall>rows. faults (InsertOrderItems rows) = None"
  shows "\<exists>lines w2 r0 rows.
           handleOrder faults createSession cart customer delivery w
             = pay_order faults createSession c (next_order_id w) lines w2
           \<and> orders (db w2) = orders (db w) @ [r0]
           \<and> o_id r0 = next_order_id w
           \<and> payment_status r0 = Pending
           \<and> stripe_checkout_session_id r0 = None
           \<and> order_items (db w2) = order_items (db w) @ rows
           \<and> length rows = length cart"
proof -
  let ?tot = "cart_total (products (db w)) cart"
  let ?w = "after_reads cart i w"
  from handleOrder_persists [OF assms(1,2), of createSession] obtain items lines where
    s: "list_all2 (snapshot_of (products (db w))) cart items"
    and h: "handleOrder faults createSession cart customer delivery w
              = persist_order faults createSession c d i items lines ?tot ?w" by blast
  let ?rows = "map (\<lambda>item. order_item.extend item \<lparr>order_id = next_order_id w\<rparr>) items"
  let ?r0 = "order_insert.extend (order_header c d i ?tot)
               \<lparr>o_id = next_order_id w, stripe_checkout_session_id = None,
                stripe_payment_intent_id = None, updated_at = None\<rparr>"
  from persist_order_inserted [OF assms(3,4), of createSession items lines ?w] obtain w2 where
    p: "persist_order faults createSession c d i items lines ?tot ?w
          = pay_order faults createSession c (next_order_id w) lines w2"
    and o: "orders (db w2) = orders (db w) @ [?r0]"
    and it: "order_items (db w2) = order_items (db w) @ ?rows" by auto
  have r0: "o_id ?r0 = next_order_id w" "payment_status ?r0 = Pending"
    "stripe_checkout_session_id ?r0 = None"
    by (simp_all add: order_insert.defs order_header_def)
  have len: "length ?rows = length cart" using s by (simp add: list_all2_lengthD)
  from h p o it r0 len show ?thesis
    by (intro exI [of _ lines] exI [of _ w2] exI [of _ ?r0] exI [of _ ?rows]) simp
qed

lemma delete_donation_trace:
  "trace (snd (delete_donation faults i w)) = trace w @ [DeleteDonation i]"
  by (simp add: delete_donation_def Let_def issue_def split: option.splits)

lemma delete_donation_done:
  "faults (DeleteDonation i) = None \<Longrightarrow>
   donations (db (snd (delete_donation faults i w)))
     = filter (\<lambda>r. don_id r \<noteq> i) (donations (db w))"
  by (simp add: delete_donation_def Let_def issue_def)

lemma insert_donation_ok:
  assumes "faults (InsertDonation (donation_header donation)) = None"
  shows "insert_donation faults (donation_header donation) w
           = (Inr (next_donation_id w), donation_inserted donation w)"
  using assms
  by (simp add: insert_donation_def donation_inserted_def next_donation_id_def Let_def issue_def)

lemma handleDonation_stripe_failed:
  assumes "dn_firstName donation \<noteq> []" and "dn_lastName donation \<noteq> []"
    and "to_boolean (amountCents donation)"
    and "\<not> js_less (to_number (amountCents donation)) (Num 100)"
    and "faults (InsertDonation (donation_header donation)) = None"
    and "\<forall>req. createSession req = Inl err"
  shows "handleDonation faults createSession donation w
           = (response 500 (ErrorBody ''Erreur Stripe''),
              snd (delete_donation faults (next_donation_id w)
                     (say (ConsoleError ''Erreur Stripe don:'' err)
                        (donation_inserted donation w))))"
  using assms
  by (simp add: handleDonation_def insert_donation_ok Let_def)

lemma handleDonation_session:
  assumes "dn_firstName donation \<noteq> []" and "dn_lastName donation \<noteq> []"
    and "to_boolean (amountCents donation)"
    and "\<not> js_less (to_number (amountCents donation)) (Num 100)"
    and "faults (InsertDonation (donation_header donation)) = None"
    and "\<forall>req. createSession req = Inr session"
  shows "handleDonation faults createSession donation w
           = (response 200 (DonationCreated (url session) (next_donation_id w)),
              snd (update_donation_session faults (next_donation_id w) (session_id session)
                     (donation_inserted donation w)))"
  using assms
  by (simp add: handleDonation_def insert_donation_ok Let_def)

lemma donation_inserted_simps:
  "donations (db (donation_inserted donation w))
     = donations (db w) @
       [donation_insert.extend (donation_header donation)
          \<lparr>don_id = next_donation_id w, don_stripe_checkout_session_id = None,
           don_stripe_payment_intent_id = None\<rparr>]"
  by (simp add: donation_inserted_def issue_def)

text \<open>Unfolding set for evaluating the donation path on the example data.\<close>

lemmas donation_defs =
  handleDonation_def insert_donation_def delete_donation_def update_donation_session_def
  donation_header_def donation_insert.defs

text \<open>
  Claim C7, as written, fails: both compensations are datastore calls whose result is
  not looked at. With Stripe down and the datastore refusing the two writes, the order
  is still \<^verbatim>\<open>pending\<close> and the donation is still there when 500 is returned.
\<close>

theorem stripe_failure_compensation_counterexample:
  "statusCode (fst (handleOrder updates_rejected stripe_down two_of_p1
                      (Some alice) (Some to_church) shop_world)) = 500
   \<and> map payment_status
        (orders (db (snd (handleOrder updates_rejected stripe_down two_of_p1
                            (Some alice) (Some to_church) shop_world)))) = [Pending]
   \<and> statusCode (fst (handleDonation updates_rejected stripe_down gift shop_world)) = 500
   \<and> map don_id (donations (db (snd (handleDonation updates_rejected stripe_down gift
                                        shop_world)))) = [1]"
  by (simp add: checkout_defs donation_defs example_defs Let_def)

text \<open>
  Claim C7, amended. When the payment-session creation fails, the two paths compensate
  differently, each on its own request. For an order request whose order and items
  have been stored, \<^verbatim>\<open>handleOrder\<close> keeps the order and its items, issues as its last
  datastore call the update of the order's \<^verbatim>\<open>payment_status\<close> to \<^verbatim>\<open>failed\<close>, and returns 500;
  when the datastore carries the update out, the order is \<^verbatim>\<open>failed\<close>. For a donation request
  whose donation has been stored, whatever datastore, Stripe client and amount,
  \<^verbatim>\<open>handleDonation\<close> issues as its last datastore call the delete of the donation and
  returns 500; when the datastore carries the delete out, the donation is gone. (Neither
  result is checked.) The two statements share no hypothesis.
\<close>

theorem stripe_failure_compensation:
  "(reaches_cart_loop faults cart customer delivery w c d i
      \<and> list_all (valid_line (products (db w))) cart
      \<and> faults (InsertOrder (order_header c d i (cart_total (products (db w)) cart))) = None
      \<and> (\<forall>rows. faults (InsertOrderItems rows) = None)
      \<and> (\<forall>req. createSession req = Inl err)
    \<longrightarrow>
      statusCode (fst (handleOrder faults createSession cart customer delivery w)) = 500
      \<and> last (trace (snd (handleOrder faults createSession cart customer delivery w)))
          = UpdateOrderPaymentStatus (next_order_id w) Failed
      \<and> map o_id (orders (db (snd (handleOrder faults createSession cart customer delivery w))))
          = map o_id (orders (db w)) @ [next_order_id w]
      \<and> length (order_items
                   (db (snd (handleOrder faults createSession cart customer delivery w))))
          = length (order_items (db w)) + length cart
      \<and> (faults (UpdateOrderPaymentStatus (next_order_id w) Failed) = None \<longrightarrow>
           (\<forall>r \<in> set (orders
                          (db (snd (handleOrder faults createSession cart customer delivery w)))).
              o_id r = next_order_id w \<longrightarrow> payment_status r = Failed)))
   \<and> (dn_firstName donation \<noteq> [] \<and> dn_lastName donation \<noteq> []
      \<and> to_boolean (amountCents donation)
      \<and> \<not> js_less (to_number (amountCents donation)) (Num 100)
      \<and> faults' (InsertDonation (donation_header donation)) = None
      \<and> (\<forall>req. createSession' req = Inl err')
    \<longrightarrow>
      statusCode (fst (handleDonation faults' createSession' donation w')) = 500
      \<and> last (trace (snd (handleDonation faults' createSession' donation w')))
          = DeleteDonation (next_donation_id w')
      \<and> (faults' (DeleteDonation (next_donation_id w')) = None \<longrightarrow>
           donations (db (snd (handleDonation faults' createSession' donation w')))
             = donations (db w')))"
  (is "(?order_request \<longrightarrow> ?order_compensated) \<and> (?donation_request \<longrightarrow> ?donation_compensated)")
proof (rule conjI; rule impI)
  assume ?order_request
  then have o1: "reaches_cart_loop faults cart customer delivery w c d i"
    and o2: "list_all (valid_line (products (db w))) cart"
    and o3: "faults (InsertOrder (order_header c d i (cart_total (products (db w)) cart))) = None"
    and o4: "\<forall>rows. faults (InsertOrderItems rows) = None"
    and s: "\<forall>req. createSession req = Inl err"
    by blast+
  from handleOrder_pays [OF o1 o2 o3 o4, of createSession] obtain lines w2 r0 rows where
    h: "handleOrder faults createSession cart customer delivery w
          = pay_order faults createSession c (next_order_id w) lines w2"
    and o: "orders (db w2) = orders (db w) @ [r0]" "o_id r0 = next_order_id w"
    and it: "order_items (db w2) = order_items (db w) @ rows" "length rows = length cart"
    by blast
  note p = pay_order_stripe_failed
             [where createSession = createSession and err = err and faults = faults and c = c
                and oid = "next_order_id w" and lines = lines and w = w2, OF s]
  have a1: "statusCode (fst (handleOrder faults createSession cart customer delivery w)) = 500"
    by (simp add: h p(1))
  have a2: "last (trace (snd (handleOrder faults createSession cart customer delivery w)))
              = UpdateOrderPaymentStatus (next_order_id w) Failed"
    by (simp add: h p(2))
  have a3: "map o_id (orders (db (snd (handleOrder faults createSession cart customer delivery w))))
              = map o_id (orders (db w)) @ [next_order_id w]"
    by (simp add: h p(4) o)
  have a4: "length (order_items
                      (db (snd (handleOrder faults createSession cart customer delivery w))))
              = length (order_items (db w)) + length cart"
    by (simp add: h p(3) it)
  have a5: "faults (UpdateOrderPaymentStatus (next_order_id w) Failed) = None \<longrightarrow>
              (\<forall>r \<in> set (orders
                             (db (snd (handleOrder faults createSession cart customer delivery w)))).
                 o_id r = next_order_id w \<longrightarrow> payment_status r = Failed)"
    using p(5) by (simp add: h)
  from a1 a2 a3 a4 a5 show ?order_compensated by (intro conjI)
next
  assume ?donation_request
  then have d1: "dn_firstName donation \<noteq> []"
    and d2: "dn_lastName donation \<noteq> []"
    and d3: "to_boolean (amountCents donation)"
      "\<not> js_less (to_number (amountCents donation)) (Num 100)"
    and d4: "faults' (InsertDonation (donation_header donation)) = None"
    and s: "\<forall>req. createSession' req = Inl err'"
    by blast+
  note e = handleDonation_stripe_failed
             [where faults = faults' and createSession = createSession' and donation = donation
                and w = w' and err = err', OF d1 d2 d3 d4 s]
  have b1: "statusCode (fst (handleDonation faults' createSession' donation w')) = 500"
    by (simp add: e response_def)
  have b2: "last (trace (snd (handleDonation faults' createSession' donation w')))
              = DeleteDonation (next_donation_id w')"
    by (simp add: e delete_donation_trace)
  have b3: "faults' (DeleteDonation (next_donation_id w')) = None \<longrightarrow>
              donations (db (snd (handleDonation faults' createSession' donation w')))
                = donations (db w')"
    by (simp add: e delete_donation_done say_def donation_inserted_simps
          filter_fresh_donation donation_insert.defs)
  from b1 b2 b3 show ?donation_compensated by (intro conjI)
qed

text \<open>
  Both halves at work: an order request with the datastore up and Stripe down, and a
  donation request against a datastore that accepts the donation's insert and delete
  only, a cart never having been sent.
\<close>

theorem stripe_failure_compensation_witness:
  "reaches_cart_loop no_faults two_of_p1 (Some alice) (Some to_church) shop_world
     alice to_church 1
   \<and> list_all (valid_line (products (db shop_world))) two_of_p1
   \<and> dn_firstName gift \<noteq> [] \<and> dn_lastName gift \<noteq> []
   \<and> to_boolean (amountCents gift) \<and> \<not> js_less (to_number (amountCents gift)) (Num 100)
   \<and> donations_only (InsertDonation (donation_header gift)) = None
   \<and> donations_only (SelectProducts [1]) = Some ''fetch failed''
   \<and> (\<forall>req. stripe_down req = Inl ''An error occurred with our connection to Stripe.'')
   \<and> statusCode (fst (handleOrder no_faults stripe_down two_of_p1
                         (Some alice) (Some to_church) shop_world)) = 500
   \<and> last (trace (snd (handleOrder no_faults stripe_down two_of_p1
                          (Some alice) (Some to_church) shop_world)))
       = UpdateOrderPaymentStatus 1 Failed
   \<and> map (\<lambda>r. (o_id r, payment_status r))
        (orders (db (snd (handleOrder no_faults stripe_down two_of_p1
                            (Some alice) (Some to_church) shop_world)))) = [(1, Failed)]
   \<and> length (order_items (db (snd (handleOrder no_faults stripe_down two_of_p1
                                      (Some alice) (Some to_church) shop_world)))) = 1
   \<and> statusCode (fst (handleDonation donations_only stripe_down gift empty_world)) = 500
   \<and> last (trace (snd (handleDonation donations_only stripe_down gift empty_world)))
       = DeleteDonation 1
   \<and> donations (db (snd (handleDonation donations_only stripe_down gift empty_world))) = []"
proof -
  have a: "reaches_cart_loop no_faults two_of_p1 (Some alice) (Some to_church)
             shop_world alice to_church 1"
    by (simp add: reaches_cart_loop_def validate_order_fields_def example_defs)
  have b: "list_all (valid_line (products (db shop_world))) two_of_p1"
    by (simp add: valid_line_def example_defs number_simps)
  have c: "no_faults (InsertOrder (order_header alice to_church 1
             (cart_total (products (db shop_world)) two_of_p1))) = None"
    by (simp add: no_faults_def)
  have d: "\<forall>rows. no_faults (InsertOrderItems rows) = None"
    by (simp add: no_faults_def)
  have g: "dn_firstName gift \<noteq> []" "dn_lastName gift \<noteq> []"
    "to_boolean (amountCents gift)" "\<not> js_less (to_number (amountCents gift)) (Num 100)"
    "donations_only (InsertDonation (donation_header gift)) = None"
    "donations_only (SelectProducts [1]) = Some ''fetch failed''"
    by (simp_all add: gift_def donations_only_def whole_def number_simps)
  have s: "\<forall>req. stripe_down req = Inl ''An error occurred with our connection to Stripe.''"
    by (simp add: stripe_down_def)
  have n: "next_order_id shop_world = 1" "next_donation_id empty_world = 1"
    "donations (db empty_world) = []" "donations_only (DeleteDonation 1) = None"
    "no_faults (UpdateOrderPaymentStatus 1 Failed) = None"
    by (simp_all add: next_order_id_def next_donation_id_def fresh_id_def example_defs
          donations_only_def empty_world_def)
  have v: "map (\<lambda>r. (o_id r, payment_status r))
        (orders (db (snd (handleOrder no_faults stripe_down two_of_p1
                            (Some alice) (Some to_church) shop_world)))) = [(1, Failed)]"
    "length (order_items (db (snd (handleOrder no_faults stripe_down two_of_p1
                                      (Some alice) (Some to_church) shop_world)))) = 1"
    by (simp_all add: checkout_defs example_defs Let_def)
  show ?thesis
    using stripe_failure_compensation
            [where faults = no_faults and createSession = stripe_down and cart = two_of_p1
               and customer = "Some alice" and delivery = "Some to_church" and w = shop_world
               and c = alice and d = to_church and i = 1 and donation = gift
               and err = "''An error occurred with our connection to Stripe.''"
               and faults' = donations_only and createSession' = stripe_down
               and w' = empty_world
               and err' = "''An error occurred with our connection to Stripe.''"]
          a b c d g s n v
    by simp
qed

subsection \<open>The session id is stored without a check\<close>

lemma update_donation_session_refused:
  assumes "faults (UpdateDonationSession i sid) \<noteq> None"
  shows "db (snd (update_donation_session faults i sid w)) = db w"
proof -
  from assms obtain e where "faults (UpdateDonationSession i sid) = Some e" by auto
  then show ?thesis by (simp add: update_donation_session_def Let_def issue_def)
qed

text \<open>
  Claim C10. After a successful Stripe session creation, the update that stores the
  session id on the record is not error-checked: when the datastore refuses it,
  \<^verbatim>\<open>handleOrder\<close> and \<^verbatim>\<open>handleDonation\<close> still return 200 with the redirect url and the
  record id, and the record is left with no stored session id. The statement for orders
  and the one for donations share no hypothesis: each is about its own request,
  datastore and Stripe client.
\<close>

theorem session_id_update_unchecked:
  "(reaches_cart_loop faults cart customer delivery w c d i
      \<and> list_all (valid_line (products (db w))) cart
      \<and> faults (InsertOrder (order_header c d i (cart_total (products (db w)) cart))) = None
      \<and> (\<forall>rows. faults (InsertOrderItems rows) = None)
      \<and> (\<forall>req. createSession req = Inr session)
      \<and> faults (UpdateOrderSession (next_order_id w) (session_id session)) \<noteq> None
    \<longrightarrow>
      fst (handleOrder faults createSession cart customer delivery w)
        = response 200 (OrderCreated (url session) (next_order_id w))
      \<and> map o_id (orders (db (snd (handleOrder faults createSession cart customer delivery w))))
          = map o_id (orders (db w)) @ [next_order_id w]
      \<and> (\<forall>r \<in> set (orders
                       (db (snd (handleOrder faults createSession cart customer delivery w)))).
            o_id r = next_order_id w \<longrightarrow> stripe_checkout_session_id r = None))
   \<and> (dn_firstName donation \<noteq> [] \<and> dn_lastName donation \<noteq> []
      \<and> to_boolean (amountCents donation)
      \<and> \<not> js_less (to_number (amountCents donation)) (Num 100)
      \<and> faults' (InsertDonation (donation_header donation)) = None
      \<and> (\<forall>req. createSession' req = Inr session')
      \<and> faults' (UpdateDonationSession (next_donation_id w') (session_id session')) \<noteq> None
    \<longrightarrow>
      fst (handleDonation faults' createSession' donation w')
        = response 200 (DonationCreated (url session') (next_donation_id w'))
      \<and> map don_id (donations (db (snd (handleDonation faults' createSession' donation w'))))
          = map don_id (donations (db w')) @ [next_donation_id w']
      \<and> (\<forall>r \<in> set (donations (db (snd (handleDonation faults' createSession' donation w')))).
            don_id r = next_donation_id w' \<longrightarrow> don_stripe_checkout_session_id r = None))"
  (is "(?order_request \<longrightarrow> ?order_unstored) \<and> (?donation_request \<longrightarrow> ?donation_unstored)")
proof (rule conjI; rule impI)
  assume ?order_request
  then have o1: "reaches_cart_loop faults cart customer delivery w c d i"
    and o2: "list_all (valid_line (products (db w))) cart"
    and o3: "faults (InsertOrder (order_header c d i (cart_total (products (db w)) cart))) = None"
    and o4: "\<forall>rows. faults (InsertOrderItems rows) = None"
    and s: "\<forall>req. createSession req = Inr session"
    and u1: "faults (UpdateOrderSession (next_order_id w) (session_id session)) \<noteq> None"
    by blast+
  from handleOrder_pays [OF o1 o2 o3 o4, of createSession] obtain lines w2 r0 rows where
    h: "handleOrder faults createSession cart customer delivery w
          = pay_order faults createSession c (next_order_id w) lines w2"
    and o: "orders (db w2) = orders (db w) @ [r0]" "o_id r0 = next_order_id w"
      "stripe_checkout_session_id r0 = None"
    by blast
  note p = pay_order_session_unstored
             [where createSession = createSession and session = session and faults = faults
                and oid = "next_order_id w" and c = c and lines = lines and w = w2, OF s u1]
  have a1: "fst (handleOrder faults createSession cart customer delivery w)
              = response 200 (OrderCreated (url session) (next_order_id w))"
    by (simp add: h p)
  have oo: "orders (db (snd (handleOrder faults createSession cart customer delivery w)))
              = orders (db w) @ [r0]"
    by (simp add: h p issue_def o(1))
  have a2: "map o_id (orders (db (snd (handleOrder faults createSession cart customer delivery w))))
              = map o_id (orders (db w)) @ [next_order_id w]"
    by (simp add: oo o(2))
  have a3: "\<forall>r \<in> set (orders
                          (db (snd (handleOrder faults createSession cart customer delivery w)))).
               o_id r = next_order_id w \<longrightarrow> stripe_checkout_session_id r = None"
    using fresh_order_id_new [of _ w] o(3) by (auto simp: oo)
  from a1 a2 a3 show ?order_unstored by (intro conjI)
next
  assume ?donation_request
  then have d1: "dn_firstName donation \<noteq> []"
    and d2: "dn_lastName donation \<noteq> []"
    and d3: "to_boolean (amountCents donation)"
      "\<not> js_less (to_number (amountCents donation)) (Num 100)"
    and d4: "faults' (InsertDonation (donation_header donation)) = None"
    and s: "\<forall>req. createSession' req = Inr session'"
    and u2: "faults' (UpdateDonationSession (next_donation_id w') (session_id session')) \<noteq> None"
    by blast+
  note e = handleDonation_session
             [where faults = faults' and createSession = createSession' and donation = donation
                and w = w' and session = session', OF d1 d2 d3 d4 s]
  let ?r = "donation_insert.extend (donation_header donation)
              \<lparr>don_id = next_donation_id w', don_stripe_checkout_session_id = None,
               don_stripe_payment_intent_id = None\<rparr>"
  have b1: "fst (handleDonation faults' createSession' donation w')
              = response 200 (DonationCreated (url session') (next_donation_id w'))"
    by (simp add: e)
  have dd: "donations (db (snd (handleDonation faults' createSession' donation w')))
              = donations (db w') @ [?r]"
    using u2 by (simp add: e update_donation_session_refused donation_inserted_simps)
  have r: "don_id ?r = next_donation_id w'" "don_stripe_checkout_session_id ?r = None"
    by (simp_all add: donation_insert.defs)
  have b2: "map don_id (donations (db (snd (handleDonation faults' createSession' donation w'))))
              = map don_id (donations (db w')) @ [next_donation_id w']"
    by (simp add: dd r(1))
  have b3: "\<forall>r \<in> set (donations (db (snd (handleDonation faults' createSession' donation w')))).
               don_id r = next_donation_id w' \<longrightarrow> don_stripe_checkout_session_id r = None"
    using fresh_donation_id_new [of _ w'] r(2) by (auto simp: dd)
  from b1 b2 b3 show ?donation_unstored by (intro conjI)
qed

text \<open>
  Both halves at work: an order request whose session-id update is refused, and a
  donation request on a datastore with no product that refuses nothing but the
  donation's session-id update.
\<close>

theorem session_id_update_unchecked_witness:
  "reaches_cart_loop updates_rejected two_of_p1 (Some alice) (Some to_church) shop_world
     alice to_church 1
   \<and> list_all (valid_line (products (db shop_world))) two_of_p1
   \<and> dn_firstName gift \<noteq> [] \<and> dn_lastName gift \<noteq> []
   \<and> to_boolean (amountCents gift) \<and> \<not> js_less (to_number (amountCents gift)) (Num 100)
   \<and> updates_rejected (UpdateOrderSession 1 ''cs_test_1'') = Some ''update failed''
   \<and> donation_session_refused (UpdateDonationSession 1 ''cs_test_1'') = Some ''update failed''
   \<and> donation_session_refused (UpdateOrderSession 1 ''cs_test_1'') = None
   \<and> products (db empty_world) = []
   \<and> fst (handleOrder updates_rejected stripe_up two_of_p1 (Some alice) (Some to_church)
             shop_world)
       = response 200 (OrderCreated ''https://checkout.stripe.com/c/pay/cs_test_1'' 1)
   \<and> map (\<lambda>r. (o_id r, stripe_checkout_session_id r))
        (orders (db (snd (handleOrder updates_rejected stripe_up two_of_p1
                            (Some alice) (Some to_church) shop_world)))) = [(1, None)]
   \<and> fst (handleDonation donation_session_refused stripe_up gift empty_world)
       = response 200 (DonationCreated ''https://checkout.stripe.com/c/pay/cs_test_1'' 1)
   \<and> map (\<lambda>r. (don_id r, don_stripe_checkout_session_id r))
        (donations (db (snd (handleDonation donation_session_refused stripe_up gift
                               empty_world))))
       = [(1, None)]"
proof -
  let ?session = "\<lparr>session_id = ''cs_test_1'',
                   url = ''https://checkout.stripe.com/c/pay/cs_test_1''\<rparr>"
  have a: "reaches_cart_loop updates_rejected two_of_p1 (Some alice) (Some to_church)
             shop_world alice to_church 1"
    by (simp add: reaches_cart_loop_def validate_order_fields_def example_defs)
  have b: "list_all (valid_line (products (db shop_world))) two_of_p1"
    by (simp add: valid_line_def example_defs number_simps)
  have c: "updates_rejected (InsertOrder (order_header alice to_church 1
             (cart_total (products (db shop_world)) two_of_p1))) = None"
    by (simp add: updates_rejected_def)
  have d: "\<forall>rows. updates_rejected (InsertOrderItems rows) = None"
    by (simp add: updates_rejected_def)
  have g: "dn_firstName gift \<noteq> []" "dn_lastName gift \<noteq> []"
    "to_boolean (amountCents gift)" "\<not> js_less (to_number (amountCents gift)) (Num 100)"
    "donation_session_refused (InsertDonation (donation_header gift)) = None"
    by (simp_all add: gift_def donation_session_refused_def whole_def number_simps)
  have s: "\<forall>req. stripe_up req = Inr ?session"
    by (simp add: stripe_up_def)
  have n: "next_order_id shop_world = 1" "next_donation_id empty_world = 1"
    "products (db empty_world) = []"
    by (simp_all add: next_order_id_def next_donation_id_def fresh_id_def example_defs
          empty_world_def)
  have u: "updates_rejected (UpdateOrderSession (next_order_id shop_world) (session_id ?session))
             \<noteq> None"
    "donation_session_refused
       (UpdateDonationSession (next_donation_id empty_world) (session_id ?session)) \<noteq> None"
    by (simp_all add: updates_rejected_def donation_session_refused_def)
  have v: "updates_rejected (UpdateOrderSession 1 ''cs_test_1'') = Some ''update failed''"
    "donation_session_refused (UpdateDonationSession 1 ''cs_test_1'') = Some ''update failed''"
    "donation_session_refused (UpdateOrderSession 1 ''cs_test_1'') = None"
    by (simp_all add: updates_rejected_def donation_session_refused_def)
  have x: "map (\<lambda>r. (o_id r, stripe_checkout_session_id r))
        (orders (db (snd (handleOrder updates_rejected stripe_up two_of_p1
                            (Some alice) (Some to_church) shop_world)))) = [(1, None)]"
    by (simp add: checkout_defs example_defs Let_def)
  have y: "map (\<lambda>r. (don_id r, don_stripe_checkout_session_id r))
        (donations (db (snd (handleDonation donation_session_refused stripe_up gift
                               empty_world))))
       = [(1, None)]"
    by (simp add: donation_defs example_defs donation_session_refused_def empty_world_def
          issue_def say_def fresh_id_def or_null_def response_def number_simps Let_def)
  show ?thesis
    using session_id_update_unchecked
            [where faults = updates_rejected and createSession = stripe_up and cart = two_of_p1
               and customer = "Some alice" and delivery = "Some to_church" and w = shop_world
               and c = alice and d = to_church and i = 1 and donation = gift
               and session = ?session
               and faults' = donation_session_refused and createSession' = stripe_up
               and w' = empty_world and session' = ?session]
          a b c d g s u n v x y
    by simp
qed

subsection \<open>Refunds\<close>

text \<open>Unfolding set for evaluating the webhook on the example data.\<close>

lemmas webhook_defs =
  handler_def handlePaymentConfirmed_def handlePaymentFailed_def handleRefund_def
  update_orders_refunded_def mark_refunded_def rpc_def issue_def say_def demo_verifier_def signed_post_def
  unsigned_post_def paid_session_def stored_procedures_def

text \<open>
  Claim C8, as written, fails for donations: \<^verbatim>\<open>handleRefund\<close> updates the \<^verbatim>\<open>orders\<close> table
  only. A verified charge-refunded notification that carries the payment intent of a
  paid donation is acknowledged with 200 and the donation stays \<^verbatim>\<open>paid\<close>.
\<close>

theorem handleRefund_donation_counterexample:
  "demo_verifier (raw_body (signed_post ''refunded'')) (stripe_signature (signed_post ''refunded''))
     = Inr (ChargeRefunded \<lparr>ch_payment_intent = Some ''pi_1''\<rparr>)
   \<and> map don_stripe_payment_intent_id (donations (db books)) = [Some ''pi_1'']
   \<and> map don_payment_status (donations (db books)) = [Paid]
   \<and> wh_statusCode (fst (handler demo_verifier no_faults stored_procedures noon
                            (signed_post ''refunded'') books)) = 200
   \<and> map don_stripe_payment_intent_id
        (donations (db (snd (handler demo_verifier no_faults stored_procedures noon
                               (signed_post ''refunded'') books)))) = [Some ''pi_1'']
   \<and> map don_payment_status
        (donations (db (snd (handler demo_verifier no_faults stored_procedures noon
                               (signed_post ''refunded'') books)))) = [Paid]"
  by (simp add: webhook_defs books_def paid_donation_def no_faults_def Let_def)

lemma mark_refunded_twice:
  "mark_refunded intent now' (mark_refunded intent now r) = mark_refunded intent now' r"
  by (simp add: mark_refunded_def)

lemma mark_refunded_status:
  "payment_status (mark_refunded intent now' r) = payment_status (mark_refunded intent now r)"
  by (simp add: mark_refunded_def)

lemma handleRefund_eq:
  assumes "ch_payment_intent charge = Some intent" and "intent \<noteq> []"
  shows "handleRefund faults now charge w
           = (case faults (UpdateOrdersRefunded intent now) of
                Some error \<Rightarrow>
                  (Inr (),
                   say (ConsoleError (cross_mark @ '' Erreur mise '' @ [CHR 0xC3, CHR 0xA0]
                                      @ '' jour remboursement:'') error)
                     (issue (UpdateOrdersRefunded intent now) w))
              | None \<Rightarrow>
                  (Inr (),
                   say (ConsoleLog (check_mark @ '' Remboursement enregistr'' @ e_acute
                                    @ '' pour payment_intent: '' @ intent))
                     ((issue (UpdateOrdersRefunded intent now) w)
                        \<lparr>db := (db w)\<lparr>orders :=
                           map (mark_refunded intent now) (orders (db w))\<rparr>\<rparr>)))"
  using assms
  by (simp add: handleRefund_def update_orders_refunded_def Let_def issue_def
           split: option.splits)

lemma handleRefund_frame:
  assumes "ch_payment_intent charge = Some intent" and "intent \<noteq> []"
  shows "fst (handleRefund faults now charge w) = Inr ()"
    and "calls_of w (snd (handleRefund faults now charge w)) = [UpdateOrdersRefunded intent now]"
    and "donations (db (snd (handleRefund faults now charge w))) = donations (db w)"
    and "products (db (snd (handleRefund faults now charge w))) = products (db w)"
    and "order_items (db (snd (handleRefund faults now charge w))) = order_items (db w)"
    and "faults (UpdateOrdersRefunded intent now) = None \<Longrightarrow>
         orders (db (snd (handleRefund faults now charge w)))
           = map (mark_refunded intent now) (orders (db w))"
    and "faults (UpdateOrdersRefunded intent now) \<noteq> None \<Longrightarrow>
         orders (db (snd (handleRefund faults now charge w))) = orders (db w)"
  by (auto simp: handleRefund_eq [OF assms] calls_of_def issue_def say_def
           split: option.splits)

lemma handleRefund_refused:
  assumes "ch_payment_intent charge = Some intent" and "intent \<noteq> []"
    and "faults (UpdateOrdersRefunded intent now) = Some e"
  shows "console (snd (handleRefund faults now charge w))
           = console w @ [ConsoleError (cross_mark @ '' Erreur mise '' @ [CHR 0xC3, CHR 0xA0]
                                        @ '' jour remboursement:'') e]"
    and "db (snd (handleRefund faults now charge w)) = db w"
  using assms(3) by (simp_all add: handleRefund_eq [OF assms(1,2)] issue_def say_def)

lemma handleRefund_statuses:
  assumes "ch_payment_intent charge = Some intent" and "intent \<noteq> []"
  shows "map payment_status (orders (db (snd (handleRefund faults now charge w))))
           = map payment_status (orders (db w))
         \<or> orders (db (snd (handleRefund faults now charge w)))
             = map (mark_refunded intent now) (orders (db w))"
  using handleRefund_frame(6,7) [OF assms, of faults now w]
  by (cases "faults (UpdateOrdersRefunded intent now)") simp_all


text \<open>
  Claim C8, amended. For a charge-refunded notification that carries a payment-intent
  id, the reconciler makes one datastore call, an update of \<^verbatim>\<open>orders\<close> keyed by that
  payment-intent id (not by session id), and never throws. When the datastore carries
  the update out, every order with that payment-intent id is \<^verbatim>\<open>refunded\<close> and no other
  order is touched; delivering the notification again changes no payment status.
  Donations are not looked at: the \<^verbatim>\<open>donations\<close> table is unchanged. When the datastore
  answers the update with an error, the error is logged with \<^verbatim>\<open>console.error\<close> and not
  raised: the reconciler returns normally and the tables are unchanged.
\<close>

theorem handleRefund_orders:
  assumes "ch_payment_intent charge = Some intent" and "intent \<noteq> []"
  shows "fst (route faults procs now (ChargeRefunded charge) w) = Inr ()
         \<and> calls_of w (snd (route faults procs now (ChargeRefunded charge) w))
             = [UpdateOrdersRefunded intent now]
         \<and> donations (db (snd (route faults procs now (ChargeRefunded charge) w)))
             = donations (db w)
         \<and> (faults (UpdateOrdersRefunded intent now) = None \<longrightarrow>
              orders (db (snd (route faults procs now (ChargeRefunded charge) w)))
                = map (mark_refunded intent now) (orders (db w))
              \<and> map payment_status
                    (orders (db (snd (route faults' procs' now' (ChargeRefunded charge)
                                        (snd (route faults procs now (ChargeRefunded charge) w))))))
                  = map payment_status
                      (orders (db (snd (route faults procs now (ChargeRefunded charge) w)))))
         \<and> (\<forall>e. faults (UpdateOrdersRefunded intent now) = Some e \<longrightarrow>
              console (snd (route faults procs now (ChargeRefunded charge) w))
                = console w @ [ConsoleError (cross_mark @ '' Erreur mise '' @ [CHR 0xC3, CHR 0xA0]
                                             @ '' jour remboursement:'') e]
              \<and> db (snd (route faults procs now (ChargeRefunded charge) w)) = db w)"
proof -
  let ?w1 = "snd (handleRefund faults now charge w)"
  note f = handleRefund_frame [OF assms]
  note g = handleRefund_refused [OF assms]
  have idem: "map payment_status (orders (db (snd (handleRefund faults' now' charge ?w1))))
                = map payment_status (orders (db ?w1))"
    if ok: "faults (UpdateOrdersRefunded intent now) = None"
  proof -
    have o1: "orders (db ?w1) = map (mark_refunded intent now) (orders (db w))"
      using f(6) [where faults = faults and now = now and w = w] ok by simp
    from handleRefund_statuses [OF assms, of faults' now' ?w1] show ?thesis
    proof
      assume "map payment_status (orders (db (snd (handleRefund faults' now' charge ?w1))))
                = map payment_status (orders (db ?w1))"
      then show ?thesis .
    next
      assume "orders (db (snd (handleRefund faults' now' charge ?w1)))
                = map (mark_refunded intent now') (orders (db ?w1))"
      then show ?thesis
        by (simp add: o1 o_def mark_refunded_twice mark_refunded_status [of intent now' _ now])
    qed
  qed
  show ?thesis
    using idem by (simp add: f(1,2,3,6) g)
qed

theorem handleRefund_orders_witness:
  "ch_payment_intent \<lparr>ch_payment_intent = Some ''pi_2''\<rparr> = Some ''pi_2'' \<and> ''pi_2'' \<noteq> []
   \<and> no_faults (UpdateOrdersRefunded ''pi_2'' noon) = None
   \<and> map (\<lambda>r. (stripe_payment_intent_id r, payment_status r)) (orders (db books))
       = [(Some ''pi_2'', Paid), (Some ''pi_3'', Paid)]
   \<and> fst (route no_faults stored_procedures noon
             (ChargeRefunded \<lparr>ch_payment_intent = Some ''pi_2''\<rparr>) books) = Inr ()
   \<and> calls_of books (snd (route no_faults stored_procedures noon
                              (ChargeRefunded \<lparr>ch_payment_intent = Some ''pi_2''\<rparr>) books))
       = [UpdateOrdersRefunded ''pi_2'' noon]
   \<and> map (\<lambda>r. (stripe_payment_intent_id r, payment_status r))
        (orders (db (snd (route no_faults stored_procedures noon
                            (ChargeRefunded \<lparr>ch_payment_intent = Some ''pi_2''\<rparr>) books))))
       = [(Some ''pi_2'', Refunded), (Some ''pi_3'', Paid)]
   \<and> donations (db (snd (route no_faults stored_procedures noon
                            (ChargeRefunded \<lparr>ch_payment_intent = Some ''pi_2''\<rparr>) books)))
       = [paid_donation]
   \<and> datastore_down (UpdateOrdersRefunded ''pi_2'' noon) = Some ''fetch failed''
   \<and> fst (route datastore_down stored_procedures noon
             (ChargeRefunded \<lparr>ch_payment_intent = Some ''pi_2''\<rparr>) books) = Inr ()
   \<and> console (snd (route datastore_down stored_procedures noon
                       (ChargeRefunded \<lparr>ch_payment_intent = Some ''pi_2''\<rparr>) books))
       = [ConsoleError (cross_mark @ '' Erreur mise '' @ [CHR 0xC3, CHR 0xA0]
                        @ '' jour remboursement:'') ''fetch failed'']
   \<and> db (snd (route datastore_down stored_procedures noon
                  (ChargeRefunded \<lparr>ch_payment_intent = Some ''pi_2''\<rparr>) books)) = db books"
proof -
  have a: "ch_payment_intent \<lparr>ch_payment_intent = Some ''pi_2''\<rparr> = Some ''pi_2''"
    and b: "''pi_2'' \<noteq> []"
    and c: "no_faults (UpdateOrdersRefunded ''pi_2'' noon) = None"
    by (simp_all add: no_faults_def)
  have d: "map (\<lambda>r. (stripe_payment_intent_id r, payment_status r)) (orders (db books))
             = [(Some ''pi_2'', Paid), (Some ''pi_3'', Paid)]"
    "donations (db books) = [paid_donation]"
    by (simp_all add: books_def paid_order_def)
  have e: "map (\<lambda>r. (stripe_payment_intent_id r, payment_status r))
             (map (mark_refunded ''pi_2'' noon) (orders (db books)))
             = [(Some ''pi_2'', Refunded), (Some ''pi_3'', Paid)]"
    by (simp add: books_def paid_order_def mark_refunded_def)
  have f: "datastore_down (UpdateOrdersRefunded ''pi_2'' noon) = Some ''fetch failed''"
    "console books = []"
    by (simp_all add: datastore_down_def books_def)
  show ?thesis
    using handleRefund_orders
            [where charge = "\<lparr>ch_payment_intent = Some ''pi_2''\<rparr>" and intent = "''pi_2''"
               and faults = no_faults and procs = stored_procedures and now = noon
               and w = books and faults' = no_faults and procs' = stored_procedures
               and now' = noon, OF a b]
          handleRefund_orders
            [where charge = "\<lparr>ch_payment_intent = Some ''pi_2''\<rparr>" and intent = "''pi_2''"
               and faults = datastore_down and procs = stored_procedures and now = noon
               and w = books and faults' = no_faults and procs' = stored_procedures
               and now' = noon, OF a b]
          a b c d e f
    by simp
qed

subsection \<open>Replay of a payment-completed notification\<close>

lemma find_map_preserved:
  "(\<And>x. P (f x) = P x) \<Longrightarrow> find P (map f xs) = map_option f (find P xs)"
  by (induction xs) auto

lemma decrement_stock_after:
  "decrement_stock items ps = Some ps' \<Longrightarrow> ps' = stock_after items ps"
proof (induction items arbitrary: ps)
  case Nil
  then show ?case by (simp add: stock_after_def ordered_qty_def)
next
  case (Cons i rest)
  let ?h = "\<lambda>p. if p_id p = product_id i then p\<lparr>stock_qty := stock_qty p - item_qty i\<rparr> else p"
  from Cons.prems have "decrement_stock rest (map ?h ps) = Some ps'"
    by (simp split: if_splits)
  from Cons.IH [OF this] have "ps' = stock_after rest (map ?h ps)" .
  also have "\<dots> = stock_after (i # rest) ps"
    by (simp add: stock_after_def ordered_qty_def)
  finally show ?case .
qed

lemma confirm_order_payment_replay:
  "snd (confirm_order_payment sid intent' (snd (confirm_order_payment sid intent t)))
     = snd (confirm_order_payment sid intent t)
   \<and> (data_success (fst (confirm_order_payment sid intent t)) \<longrightarrow>
        \<not> data_success (fst (confirm_order_payment sid intent' (snd (confirm_order_payment sid intent t)))))"
proof (cases "find (\<lambda>r. stripe_checkout_session_id r = Some sid) (orders t)")
  case None
  then show ?thesis by (simp add: confirm_order_payment_def data_success_def)
next
  case (Some r)
  show ?thesis
  proof (cases "payment_status r = Pending")
    case False
    with Some show ?thesis by (simp add: confirm_order_payment_def data_success_def)
  next
    case True
    show ?thesis
    proof (cases "decrement_stock (filter (\<lambda>i. order_id i = o_id r) (order_items t)) (products t)")
      case None
      with Some True show ?thesis by (simp add: confirm_order_payment_def data_success_def)
    next
      case ps: (Some ps)
      let ?g = "\<lambda>x. if o_id x = o_id r
                     then x\<lparr>payment_status := Paid, stripe_payment_intent_id := intent\<rparr> else x"
      let ?t = "t\<lparr>products := ps, orders := map ?g (orders t)\<rparr>"
      have first: "confirm_order_payment sid intent t
                     = (Some \<lparr>success = True, entity_id = Some (o_id r)\<rparr>, ?t)"
        using Some True ps by (simp add: confirm_order_payment_def)
      have "find (\<lambda>r. stripe_checkout_session_id r = Some sid) (map ?g (orders t))
              = map_option ?g (find (\<lambda>r. stripe_checkout_session_id r = Some sid) (orders t))"
        by (rule find_map_preserved) simp
      then have f2: "find (\<lambda>r. stripe_checkout_session_id r = Some sid) (orders ?t) = Some (?g r)"
        using Some by simp
      have second: "confirm_order_payment sid intent' ?t
                      = (Some \<lparr>success = False, entity_id = Some (o_id (?g r))\<rparr>, ?t)"
        unfolding confirm_order_payment_def using f2 by simp
      show ?thesis by (simp add: first second data_success_def)
    qed
  qed
qed

lemma confirm_order_payment_stock:
  assumes "data_success (fst (confirm_order_payment sid intent t))"
  shows "\<exists>r. find (\<lambda>r. stripe_checkout_session_id r = Some sid) (orders t) = Some r
             \<and> payment_status r = Pending
             \<and> products (snd (confirm_order_payment sid intent t))
                 = stock_after (filter (\<lambda>i. order_id i = o_id r) (order_items t)) (products t)
             \<and> (\<forall>x \<in> set (orders (snd (confirm_order_payment sid intent t))).
                   o_id x = o_id r \<longrightarrow> payment_status x = Paid)"
  using assms decrement_stock_after
  by (auto simp: confirm_order_payment_def data_success_def
           split: option.splits if_splits)

lemma handlePaymentConfirmed_order:
  assumes "cs_metadata_type session = Some ''order''"
  shows "fst (handlePaymentConfirmed faults procs session w)
           = (case faults (confirm_call session) of Some e \<Rightarrow> Inl e | None \<Rightarrow> Inr ())"
    and "db (snd (handlePaymentConfirmed faults procs session w))
           = (case faults (confirm_call session) of
                Some e \<Rightarrow> db w
              | None \<Rightarrow> snd (rpc_confirm_order_payment procs (cs_id session)
                               (cs_payment_intent session) (db w)))"
  using assms
  by (simp_all add: handlePaymentConfirmed_def rpc_def confirm_call_def Let_def say_def issue_def
        split: option.splits prod.splits)

lemma handler_completed_order:
  assumes "httpMethod event = ''POST''"
    and "constructEvent (raw_body event) (stripe_signature event)
           = Inr (CheckoutSessionCompleted session)"
    and "cs_metadata_type session = Some ''order''"
  shows "wh_statusCode (fst (handler constructEvent faults procs now event w)) = 200"
    and "db (snd (handler constructEvent faults procs now event w))
           = (case faults (confirm_call session) of
                Some e \<Rightarrow> db w
              | None \<Rightarrow> snd (rpc_confirm_order_payment procs (cs_id session)
                               (cs_payment_intent session) (db w)))"
proof -
  let ?w0 = "say (event_received_line (CheckoutSessionCompleted session)) w"
  obtain r w1 where h: "handlePaymentConfirmed faults procs session ?w0 = (r, w1)"
    by fastforce
  have d0: "db ?w0 = db w" by (simp add: say_def)
  from handlePaymentConfirmed_order(2) [OF assms(3), of faults procs ?w0] h d0
  have d1: "db w1 = (case faults (confirm_call session) of
                       Some e \<Rightarrow> db w
                     | None \<Rightarrow> snd (rpc_confirm_order_payment procs (cs_id session)
                                      (cs_payment_intent session) (db w)))"
    by (simp split: option.splits)
  show "wh_statusCode (fst (handler constructEvent faults procs now event w)) = 200"
    using assms(1,2) h by (cases r) (simp_all add: handler_def)
  show "db (snd (handler constructEvent faults procs now event w))
           = (case faults (confirm_call session) of
                Some e \<Rightarrow> db w
              | None \<Rightarrow> snd (rpc_confirm_order_payment procs (cs_id session)
                               (cs_payment_intent session) (db w)))"
    using assms(1,2) h d1 by (cases r) (simp_all add: handler_def say_def)
qed


text \<open>
  Claim C3. Delivering the same payment-completed notification twice for the same order
  decrements stock once. Both deliveries are acknowledged with 200. When the datastore
  runs the first delivery's \<^verbatim>\<open>confirm_order_payment\<close> and it confirms the order, the stock
  of each product is lowered by the quantities of the order's items; the second
  delivery's RPC returns \<^verbatim>\<open>success = false\<close>, which \<^verbatim>\<open>handlePaymentConfirmed\<close> does not
  throw on, and the tables after the second delivery are those after the first. An
  RPC-level error is thrown by \<^verbatim>\<open>handlePaymentConfirmed\<close>.
\<close>

theorem replay_decrements_once:
  assumes post: "httpMethod event = ''POST''"
    and ver: "constructEvent (raw_body event) (stripe_signature event)
                = Inr (CheckoutSessionCompleted session)"
    and ty: "cs_metadata_type session = Some ''order''"
    and pr: "rpc_confirm_order_payment procs = confirm_order_payment"
  shows "wh_statusCode (fst (handler constructEvent faults procs now event w)) = 200
         \<and> wh_statusCode
             (fst (handler constructEvent faults' procs now' event
                     (snd (handler constructEvent faults procs now event w)))) = 200
         \<and> (faults (confirm_call session) = None \<longrightarrow>
              db (snd (handler constructEvent faults procs now event w))
                = snd (confirm_order_payment (cs_id session) (cs_payment_intent session) (db w))
              \<and> db (snd (handler constructEvent faults' procs now' event
                            (snd (handler constructEvent faults procs now event w))))
                  = db (snd (handler constructEvent faults procs now event w))
              \<and> (data_success (fst (confirm_order_payment (cs_id session)
                                        (cs_payment_intent session) (db w))) \<longrightarrow>
                   \<not> data_success
                       (fst (confirm_order_payment (cs_id session) (cs_payment_intent session)
                               (db (snd (handler constructEvent faults procs now event w)))))
                   \<and> (\<exists>r. find (\<lambda>r. stripe_checkout_session_id r = Some (cs_id session))
                              (orders (db w)) = Some r
                            \<and> products
                                (db (snd (handler constructEvent faults' procs now' event
                                            (snd (handler constructEvent faults procs now event w)))))
                                = stock_after
                                    (filter (\<lambda>i. order_id i = o_id r) (order_items (db w)))
                                    (products (db w)))))
         \<and> (faults' (confirm_call session) = None \<longrightarrow>
              fst (handlePaymentConfirmed faults' procs session w') = Inr ())
         \<and> (\<forall>e. faults' (confirm_call session) = Some e \<longrightarrow>
                fst (handlePaymentConfirmed faults' procs session w') = Inl e)"
proof -
  let ?sid = "cs_id session" and ?intent = "cs_payment_intent session"
  let ?w1 = "snd (handler constructEvent faults procs now event w)"
  let ?w2 = "snd (handler constructEvent faults' procs now' event ?w1)"
  note h = handler_completed_order
             [where constructEvent = constructEvent and event = event and session = session,
              OF post ver ty]
  have s1: "wh_statusCode (fst (handler constructEvent faults procs now event w)) = 200"
    by (rule h(1))
  have s2: "wh_statusCode (fst (handler constructEvent faults' procs now' event ?w1)) = 200"
    by (rule h(1))
  have t: "fst (handlePaymentConfirmed faults' procs session w')
             = (case faults' (confirm_call session) of Some e \<Rightarrow> Inl e | None \<Rightarrow> Inr ())"
    by (rule handlePaymentConfirmed_order(1) [OF ty])
  have main: "db ?w1 = snd (confirm_order_payment ?sid ?intent (db w))
              \<and> db ?w2 = db ?w1
              \<and> (data_success (fst (confirm_order_payment ?sid ?intent (db w))) \<longrightarrow>
                   \<not> data_success (fst (confirm_order_payment ?sid ?intent (db ?w1)))
                   \<and> (\<exists>r. find (\<lambda>r. stripe_checkout_session_id r = Some ?sid) (orders (db w))
                              = Some r
                            \<and> products (db ?w2)
                                = stock_after
                                    (filter (\<lambda>i. order_id i = o_id r) (order_items (db w)))
                                    (products (db w))))"
    if ok: "faults (confirm_call session) = None"
  proof -
    have d1: "db ?w1 = snd (confirm_order_payment ?sid ?intent (db w))"
      using h(2) [of faults procs now w] ok pr by simp
    note rp = confirm_order_payment_replay [of ?sid ?intent ?intent "db w"]
    have d2: "db ?w2 = db ?w1"
    proof (cases "faults' (confirm_call session)")
      case None
      then have "db ?w2 = snd (confirm_order_payment ?sid ?intent (db ?w1))"
        using h(2) [of faults' procs now' ?w1] pr by simp
      with rp d1 show ?thesis by simp
    next
      case (Some e)
      then show ?thesis using h(2) [of faults' procs now' ?w1] by simp
    qed
    have d3: "\<not> data_success (fst (confirm_order_payment ?sid ?intent (db ?w1)))"
      if "data_success (fst (confirm_order_payment ?sid ?intent (db w)))"
      using rp that d1 by simp
    have d4: "\<exists>r. find (\<lambda>r. stripe_checkout_session_id r = Some ?sid) (orders (db w)) = Some r
                  \<and> products (db ?w2)
                      = stock_after (filter (\<lambda>i. order_id i = o_id r) (order_items (db w)))
                          (products (db w))"
      if "data_success (fst (confirm_order_payment ?sid ?intent (db w)))"
      using confirm_order_payment_stock [OF that] d1 d2 by auto
    from d1 d2 d3 d4 show ?thesis by blast
  qed
  have c3: "faults (confirm_call session) = None \<longrightarrow>
              db ?w1 = snd (confirm_order_payment ?sid ?intent (db w))
              \<and> db ?w2 = db ?w1
              \<and> (data_success (fst (confirm_order_payment ?sid ?intent (db w))) \<longrightarrow>
                   \<not> data_success (fst (confirm_order_payment ?sid ?intent (db ?w1)))
                   \<and> (\<exists>r. find (\<lambda>r. stripe_checkout_session_id r = Some ?sid) (orders (db w))
                              = Some r
                            \<and> products (db ?w2)
                                = stock_after
                                    (filter (\<lambda>i. order_id i = o_id r) (order_items (db w)))
                                    (products (db w))))"
    using main by (rule impI)
  have c4: "faults' (confirm_call session) = None \<longrightarrow>
              fst (handlePaymentConfirmed faults' procs session w') = Inr ()"
    using t by simp
  have c5: "\<forall>e. faults' (confirm_call session) = Some e \<longrightarrow>
              fst (handlePaymentConfirmed faults' procs session w') = Inl e"
    using t by simp
  from s1 s2 c3 c4 c5 show ?thesis by (intro conjI)
qed


theorem replay_decrements_once_witness:
  "httpMethod (signed_post ''completed'') = ''POST''
   \<and> demo_verifier (raw_body (signed_post ''completed''))
         (stripe_signature (signed_post ''completed''))
       = Inr (CheckoutSessionCompleted paid_session)
   \<and> cs_metadata_type paid_session = Some ''order''
   \<and> rpc_confirm_order_payment stored_procedures = confirm_order_payment
   \<and> no_faults (confirm_call paid_session) = None
   \<and> map stock_qty (products (db awaiting_payment)) = [5, 10]
   \<and> map (\<lambda>i. (product_id i, oi_qty i)) (order_items (db awaiting_payment)) = [(1, whole 2)]
   \<and> data_success (fst (confirm_order_payment (cs_id paid_session)
                            (cs_payment_intent paid_session) (db awaiting_payment)))
   \<and> wh_statusCode (fst (handler demo_verifier no_faults stored_procedures noon
                            (signed_post ''completed'') awaiting_payment)) = 200
   \<and> map stock_qty
        (products (db (snd (handler demo_verifier no_faults stored_procedures noon
                              (signed_post ''completed'') awaiting_payment)))) = [3, 10]
   \<and> wh_statusCode
         (fst (handler demo_verifier no_faults stored_procedures noon (signed_post ''completed'')
                 (snd (handler demo_verifier no_faults stored_procedures noon
                         (signed_post ''completed'') awaiting_payment)))) = 200
   \<and> map stock_qty
        (products
           (db (snd (handler demo_verifier no_faults stored_procedures noon
                       (signed_post ''completed'')
                       (snd (handler demo_verifier no_faults stored_procedures noon
                               (signed_post ''completed'') awaiting_payment)))))) = [3, 10]"
proof -
  have m: "httpMethod (signed_post ''completed'') = ''POST''"
    by (simp add: signed_post_def)
  have v: "demo_verifier (raw_body (signed_post ''completed''))
             (stripe_signature (signed_post ''completed''))
           = Inr (CheckoutSessionCompleted paid_session)"
    by (simp add: demo_verifier_def signed_post_def)
  have ty: "cs_metadata_type paid_session = Some ''order''"
    by (simp add: paid_session_def)
  have pr: "rpc_confirm_order_payment stored_procedures = confirm_order_payment"
    by (simp add: stored_procedures_def)
  have nf: "no_faults (confirm_call paid_session) = None"
    by (simp add: no_faults_def)
  have a: "map stock_qty (products (db awaiting_payment)) = [5, 10]"
    "map (\<lambda>i. (product_id i, oi_qty i)) (order_items (db awaiting_payment)) = [(1, whole 2)]"
    by (simp_all add: awaiting_payment_def checkout_defs example_defs Let_def)
  have c: "data_success (fst (confirm_order_payment (cs_id paid_session)
                                (cs_payment_intent paid_session) (db awaiting_payment)))"
    "map stock_qty (products (snd (confirm_order_payment (cs_id paid_session)
                                     (cs_payment_intent paid_session) (db awaiting_payment))))
       = [3, 10]"
    by (simp_all add: awaiting_payment_def checkout_defs example_defs confirm_order_payment_def
          data_success_def paid_session_def item_qty_def column_int_def Let_def)
  show ?thesis
    using replay_decrements_once
            [where constructEvent = demo_verifier and event = "signed_post ''completed''"
               and session = paid_session and procs = stored_procedures
               and faults = no_faults and faults' = no_faults and now = noon and now' = noon
               and w = awaiting_payment and w' = awaiting_payment,
             OF m v ty pr]
          m v ty pr nf a c
    by simp
qed

end
